theory Spec2Isabelle
  imports Main "HOL-Library.Word"
begin

section \<open>Python values, failures and sequences\<close>

text \<open>
  The loader of \<^verbatim>\<open>gltf2loader.py\<close> is embedded as pure functions over an explicit loader
  state. Every exception the source can raise is a value \<open>Inl e\<close> of the result type
  \<open>error + 'a\<close>; the constructors of \<open>error\<close> are the Python exception classes.
  \<open>PyException\<close> carries the message of a bare \<^verbatim>\<open>raise Exception(...)\<close>, \<open>StructError\<close> is
  \<^verbatim>\<open>struct.error\<close>, \<open>IOError\<close> is a failing \<^verbatim>\<open>open\<close> or \<^verbatim>\<open>seek\<close>.
\<close>

type_synonym byte = "8 word"

datatype error =
    PyException string
  | KeyError
  | IndexError
  | ValueError
  | TypeError
  | AttributeError
  | NotImplementedError
  | StructError
  | IOError
  | UnicodeDecodeError

definition ebind :: "error + 'a \<Rightarrow> ('a \<Rightarrow> error + 'b) \<Rightarrow> error + 'b" where
  "ebind m f = (case m of Inl e \<Rightarrow> Inl e | Inr x \<Rightarrow> f x)"

fun emap :: "('a \<Rightarrow> error + 'b) \<Rightarrow> 'a list \<Rightarrow> error + 'b list" where
  "emap f [] = Inr []"
| "emap f (x # xs) =
     (case f x of
        Inl e \<Rightarrow> Inl e
      | Inr y \<Rightarrow> (case emap f xs of Inl e \<Rightarrow> Inl e | Inr ys \<Rightarrow> Inr (y # ys)))"

text \<open>
  Python indexing and slicing. A negative index counts from the end; an index out of range
  raises \<^verbatim>\<open>IndexError\<close>; slice bounds are clamped to the sequence and never raise.
\<close>

definition py_position :: "nat \<Rightarrow> int \<Rightarrow> nat option" where
  "py_position n i =
     (if 0 \<le> i \<and> i < int n then Some (nat i)
      else if i < 0 \<and> - int n \<le> i then Some (nat (int n + i))
      else None)"

definition py_index :: "'a list \<Rightarrow> int \<Rightarrow> error + 'a" where
  "py_index xs i =
     (case py_position (length xs) i of
        None \<Rightarrow> Inl IndexError
      | Some k \<Rightarrow> Inr (xs ! k))"

definition py_clamp :: "int \<Rightarrow> nat \<Rightarrow> nat" where
  "py_clamp k n = (if k < 0 then nat (k + int n) else min (nat k) n)"

definition py_slice :: "'a list \<Rightarrow> int \<Rightarrow> int \<Rightarrow> 'a list" where
  "py_slice xs lo hi =
     (let l = py_clamp lo (length xs); h = py_clamp hi (length xs)
      in take (h - l) (drop l xs))"

definition py_slice_from :: "'a list \<Rightarrow> int \<Rightarrow> 'a list" where
  "py_slice_from xs lo = drop (py_clamp lo (length xs)) xs"

definition py_slice_to :: "'a list \<Rightarrow> int \<Rightarrow> 'a list" where
  "py_slice_to xs hi = take (py_clamp hi (length xs)) xs"

definition startswith :: "string \<Rightarrow> string \<Rightarrow> bool" where
  "startswith s p = (take (length p) s = p)"

definition endswith :: "string \<Rightarrow> string \<Rightarrow> bool" where
  "endswith s p = (length p \<le> length s \<and> drop (length s - length p) s = p)"

section \<open>The JSON document\<close>

text \<open>
  The JSON objects the loader reads are records whose fields are the keys of the schema
  surface; a key that may be absent is an \<open>option\<close>. Integers are Python's unbounded
  integers. The key \<^verbatim>\<open>data\<close> of a buffer is not part of the file: the binary container
  binds it, to a byte string or to \<^verbatim>\<open>None\<close> (the inner \<open>option\<close>) when a remote fetch
  was refused. Entries that the loader only hands to the classes of module \<^verbatim>\<open>gltf2\<close>
  are kept as uninterpreted JSON.
\<close>

datatype json =
    JNull
  | JBool bool
  | JInt int
  | JFloat string
  | JStr string
  | JArr "json list"
  | JObj "(string \<times> json) list"

record accessor =
  acc_bufferView :: int
  acc_byteOffset :: "int option"
  acc_componentType :: int
  acc_type :: string
  acc_count :: int
  acc_normalized :: "bool option"

record bufferview =
  bv_buffer :: int
  bv_byteOffset :: "int option"
  bv_byteLength :: int
  bv_byteStride :: "int option"

record buffer =
  buf_byteLength :: int
  buf_uri :: "string option"
  buf_data :: "byte list option option"

record node_json =
  nj_children :: "int list option"
  nj_rest :: json

record gltf_json =
  j_asset :: "json option"
  j_images :: "json list option"
  j_materials :: "json list option"
  j_meshes :: "json list option"
  j_nodes :: "node_json list option"
  j_skins :: "json list option"
  j_scenes :: "json list option"
  j_scene :: "int option"
  j_animations :: "json list option"
  j_buffers :: "buffer list option"
  j_bufferViews :: "bufferview list option"

section \<open>Enumerations and dispatch tables\<close>

datatype AccessorType = SCALAR | VEC2 | VEC3 | VEC4 | MAT2 | MAT3 | MAT4

datatype AccessorComponentType =
  BYTE | UNSIGNED_BYTE | SHORT | UNSIGNED_SHORT | UNSIGNED_INT | FLOAT

text \<open>Calling an \<^verbatim>\<open>Enum\<close> class on a value that is no member raises \<^verbatim>\<open>ValueError\<close>.\<close>

definition to_AccessorType :: "string \<Rightarrow> error + AccessorType" where
  "to_AccessorType x =
     (if x = ''SCALAR'' then Inr SCALAR
      else if x = ''VEC2'' then Inr VEC2
      else if x = ''VEC3'' then Inr VEC3
      else if x = ''VEC4'' then Inr VEC4
      else if x = ''MAT2'' then Inr MAT2
      else if x = ''MAT3'' then Inr MAT3
      else if x = ''MAT4'' then Inr MAT4
      else Inl ValueError)"

definition to_AccessorComponentType :: "int \<Rightarrow> error + AccessorComponentType" where
  "to_AccessorComponentType x =
     (if x = 5120 then Inr BYTE
      else if x = 5121 then Inr UNSIGNED_BYTE
      else if x = 5122 then Inr SHORT
      else if x = 5123 then Inr UNSIGNED_SHORT
      else if x = 5125 then Inr UNSIGNED_INT
      else if x = 5126 then Inr FLOAT
      else Inl ValueError)"

text \<open>The dictionary of \<^verbatim>\<open>accessor_type_count\<close>; a missing key raises \<^verbatim>\<open>KeyError\<close>.\<close>

definition accessor_type_count :: "string \<Rightarrow> error + nat" where
  "accessor_type_count x =
     (if x = ''SCALAR'' then Inr 1
      else if x = ''VEC2'' then Inr 2
      else if x = ''VEC3'' then Inr 3
      else if x = ''VEC4'' then Inr 4
      else if x = ''MAT2'' then Inr 4
      else if x = ''MAT3'' then Inr 9
      else if x = ''MAT4'' then Inr 16
      else Inl KeyError)"

fun accessor_component_type_bytesize :: "AccessorComponentType \<Rightarrow> nat" where
  "accessor_component_type_bytesize BYTE = 1"
| "accessor_component_type_bytesize UNSIGNED_BYTE = 1"
| "accessor_component_type_bytesize SHORT = 2"
| "accessor_component_type_bytesize UNSIGNED_SHORT = 2"
| "accessor_component_type_bytesize UNSIGNED_INT = 4"
| "accessor_component_type_bytesize FLOAT = 4"

section \<open>Unpacking numbers\<close>

text \<open>
  \<^verbatim>\<open>struct.unpack\<close> with the format characters \<^verbatim>\<open>f\<close>, \<^verbatim>\<open>I\<close>, \<^verbatim>\<open>H\<close>, \<^verbatim>\<open>B\<close> and no byte-order
  prefix reads 4, 4, 2 and 1 bytes in the byte order of the host, which is taken to be
  little-endian here; a window of any other length raises \<^verbatim>\<open>struct.error\<close>. An unsigned
  integer is its value; a float is kept as the 32-bit pattern of the IEEE single it denotes.
  The quotient \<^verbatim>\<open>value / normalize_divisor\<close> is a Python float: it is kept as the pair of
  the unpacked value and the divisor (1, 255 or 65535), not rounded to any HOL number.
\<close>

datatype fmt = Fmt_f | Fmt_I | Fmt_H | Fmt_B

fun fmt_size :: "fmt \<Rightarrow> nat" where
  "fmt_size Fmt_f = 4"
| "fmt_size Fmt_I = 4"
| "fmt_size Fmt_H = 2"
| "fmt_size Fmt_B = 1"

datatype raw = RInt nat | RFloat "32 word"

datatype num = IntDiv nat nat | FloatDiv "32 word" nat

datatype entry = Scalar num | Tuple "num list"

fun le_nat :: "byte list \<Rightarrow> nat" where
  "le_nat [] = 0"
| "le_nat (b # bs) = unat b + 256 * le_nat bs"

definition struct_unpack :: "fmt \<Rightarrow> byte list \<Rightarrow> error + raw" where
  "struct_unpack f w =
     (if length w \<noteq> fmt_size f then Inl StructError
      else (case f of
              Fmt_f \<Rightarrow> Inr (RFloat (of_nat (le_nat w)))
            | Fmt_I \<Rightarrow> Inr (RInt (le_nat w))
            | Fmt_H \<Rightarrow> Inr (RInt (le_nat w))
            | Fmt_B \<Rightarrow> Inr (RInt (le_nat w))))"

fun true_div :: "raw \<Rightarrow> nat \<Rightarrow> num" where
  "true_div (RInt n) d = IntDiv n d"
| "true_div (RFloat w) d = FloatDiv w d"

section \<open>The loader and its surroundings\<close>

text \<open>
  The classes \<^verbatim>\<open>Asset\<close>, \<^verbatim>\<open>GLTFImage\<close>, \<^verbatim>\<open>Material\<close>, \<^verbatim>\<open>Mesh\<close>, \<^verbatim>\<open>Node\<close>, \<^verbatim>\<open>Skin\<close>, \<^verbatim>\<open>Scene\<close>
  and \<^verbatim>\<open>Animation\<close> live in module \<^verbatim>\<open>gltf2\<close>; their objects are values of a type
  parameter \<open>'o\<close>. A node additionally carries the attributes the loader itself writes:
  \<^verbatim>\<open>_parent\<close> and \<^verbatim>\<open>_children\<close> (references to nodes, kept as positions in
  \<^verbatim>\<open>self.nodes\<close>), \<^verbatim>\<open>_skin_index\<close> and \<^verbatim>\<open>_skin\<close>.

  Only \<^verbatim>\<open>json_data\<close> can be read before it is assigned (after a container whose chunk
  loop never ran), so it alone is an \<open>option\<close>; the other attributes start at the
  value their first assignment gives them. \<^verbatim>\<open>_accessor_data_map\<close> is a dictionary from
  accessor index to the decoded sequence.
\<close>

record 'o node =
  node_obj :: 'o
  node_parent :: "nat option"
  node_children :: "nat list"
  node_skin_index :: "int option"
  node_skin :: "'o option"

record 'o loader =
  usdz_profile :: 'o
  accessor_data_map :: "int \<Rightarrow> entry list option"
  root_dir :: string
  optimize_textures :: bool
  generate_texture_transform_texture :: bool
  json_data :: "gltf_json option"
  binary :: bool
  asset :: "'o option"
  images :: "'o list"
  materials :: "'o list"
  meshes :: "'o list"
  nodes :: "'o node list"
  skins :: "'o list"
  scenes :: "'o list"
  main_scene :: "'o option"
  animations :: "'o list"

text \<open>
  What the loader calls outside its own file: the file system, the JSON parser, base64,
  the HTTP client and the constructors of module \<^verbatim>\<open>gltf2\<close>. A constructor that is
  handed the loader may use it, so it returns the loader as well.
\<close>

record 'o env =
  read_file :: "string \<Rightarrow> byte list option"
  dirname :: "string \<Rightarrow> string"
  path_join :: "string \<Rightarrow> string \<Rightarrow> string"
  json_loads_utf8 :: "byte list \<Rightarrow> error + gltf_json"
  json_load_default :: "byte list \<Rightarrow> error + gltf_json"
  b64decode :: "string \<Rightarrow> error + byte list"
  requests_get :: "string \<Rightarrow> error + nat \<times> byte list"
  Asset_new :: "json \<Rightarrow> error + 'o"
  GLTFImage_new :: "json \<Rightarrow> nat \<Rightarrow> 'o loader \<Rightarrow> error + 'o \<times> 'o loader"
  Material_new :: "json \<Rightarrow> nat \<Rightarrow> 'o loader \<Rightarrow> error + 'o \<times> 'o loader"
  Mesh_new :: "json \<Rightarrow> nat \<Rightarrow> 'o loader \<Rightarrow> error + 'o \<times> 'o loader"
  Node_new :: "node_json \<Rightarrow> nat \<Rightarrow> 'o loader \<Rightarrow> error + 'o node \<times> 'o loader"
  Skin_new :: "'o loader \<Rightarrow> json \<Rightarrow> error + 'o \<times> 'o loader"
  Scene_new :: "json \<Rightarrow> nat \<Rightarrow> 'o node list \<Rightarrow> error + 'o"
  Animation_new :: "json \<Rightarrow> nat \<Rightarrow> 'o loader \<Rightarrow> error + 'o \<times> 'o loader"

section \<open>get_data\<close>

text \<open>
  \<^verbatim>\<open>re.match(r'^data:.*?;base64,', uri)\<close>: the text starts with \<^verbatim>\<open>data:\<close>, and after
  some characters other than a newline comes \<^verbatim>\<open>;base64,\<close>.
\<close>

fun any_then :: "string \<Rightarrow> string \<Rightarrow> bool" where
  "any_then p [] = (p = [])"
| "any_then p (c # cs) =
     (if startswith (c # cs) p then True
      else if c = CHR 0x0A then False
      else any_then p cs)"

definition is_base64_data_uri :: "string \<Rightarrow> bool" where
  "is_base64_data_uri uri = (startswith uri ''data:'' \<and> any_then '';base64,'' (drop 5 uri))"

text \<open>\<^verbatim>\<open>uri.split(',')[1]\<close>: the text between the first comma and the next one.\<close>

definition split_comma_1 :: "string \<Rightarrow> error + string" where
  "split_comma_1 uri =
     (if CHR '','' \<in> set uri
      then Inr (takeWhile (\<lambda>c. c \<noteq> CHR '','') (drop 1 (dropWhile (\<lambda>c. c \<noteq> CHR '','') uri)))
      else Inl IndexError)"

text \<open>
  Lines 320 to 343: the bytes an accessor reads from. In the binary form they are the bound
  \<^verbatim>\<open>data\<close> of the buffer, from the view's \<^verbatim>\<open>byteOffset\<close> on; in the text form the
  \<^verbatim>\<open>uri\<close> is required, and is either an inline base64 payload or a file below the root
  directory, of which \<^verbatim>\<open>byteLength\<close> bytes are read after a relative seek. A seek before
  the start of the file fails; \<^verbatim>\<open>read(-1)\<close> reads to the end and \<^verbatim>\<open>read\<close> of a smaller
  number raises \<^verbatim>\<open>ValueError\<close>.
\<close>

definition read_buffer_file :: "'o env \<Rightarrow> string \<Rightarrow> string \<Rightarrow> bufferview \<Rightarrow> error + byte list" where
  "read_buffer_file env root uri bufferview =
     (case read_file env (path_join env root uri) of
        None \<Rightarrow> Inl IOError
      | Some content \<Rightarrow>
          ebind (case bv_byteOffset bufferview of
                   None \<Rightarrow> Inr 0
                 | Some off \<Rightarrow> if off < 0 then Inl IOError else Inr (nat off))
            (\<lambda>pos. if bv_byteLength bufferview = - 1 then Inr (drop pos content)
                   else if bv_byteLength bufferview < - 1 then Inl ValueError
                   else Inr (take (nat (bv_byteLength bufferview)) (drop pos content))))"

definition buffer_bytes ::
  "'o env \<Rightarrow> 'o loader \<Rightarrow> bufferview \<Rightarrow> buffer \<Rightarrow> error + byte list option" where
  "buffer_bytes env l bufferview buffer =
     ebind (if \<not> binary l
            then (case buf_uri buffer of None \<Rightarrow> Inl KeyError | Some u \<Rightarrow> Inr u)
            else Inr [])
       (\<lambda>uri.
          if binary l then
            (case buf_data buffer of
               None \<Rightarrow> Inl KeyError
             | Some d \<Rightarrow>
                 (case bv_byteOffset bufferview of
                    None \<Rightarrow> Inr d
                  | Some off \<Rightarrow>
                      (case d of
                         None \<Rightarrow> Inl TypeError
                       | Some bs \<Rightarrow> Inr (Some (py_slice_from bs off)))))
          else if is_base64_data_uri uri then
            ebind (split_comma_1 uri)
              (\<lambda>uri_data. ebind (b64decode env uri_data)
                 (\<lambda>bs. Inr (Some (case bv_byteOffset bufferview of
                                     None \<Rightarrow> bs
                                   | Some off \<Rightarrow> py_slice_from bs off))))
          else ebind (read_buffer_file env (root_dir l) uri bufferview) (\<lambda>bs. Inr (Some bs)))"

text \<open>
  Lines 355 to 373: the format character, its size and the normalisation divisor. The
  divisor is other than 1 only for a normalised unsigned short or byte.
\<close>

definition is_normalized :: "accessor \<Rightarrow> bool" where
  "is_normalized a = (acc_normalized a = Some True)"

fun component_format :: "AccessorComponentType \<Rightarrow> accessor \<Rightarrow> error + fmt \<times> nat \<times> nat" where
  "component_format FLOAT a = Inr (Fmt_f, 4, 1)"
| "component_format UNSIGNED_INT a = Inr (Fmt_I, 4, 1)"
| "component_format UNSIGNED_SHORT a = Inr (Fmt_H, 2, if is_normalized a then 65535 else 1)"
| "component_format UNSIGNED_BYTE a = Inr (Fmt_B, 1, if is_normalized a then 255 else 1)"
| "component_format BYTE a = Inl (PyException ''unsupported accessor component type!'')"
| "component_format SHORT a = Inl (PyException ''unsupported accessor component type!'')"

text \<open>
  Lines 375 to 386. One component: the window \<^verbatim>\<open>buffer_data[x:x + data_type_size]\<close> is
  unpacked and divided; subscripting \<^verbatim>\<open>None\<close> raises \<^verbatim>\<open>TypeError\<close>. One entry: the
  components \<open>j\<close> of \<^verbatim>\<open>range(0, accessor_type_size)\<close>, as a tuple when there are more than
  one. The outer loop adds the stride to the offset after each entry.
\<close>

definition read_component ::
  "byte list option \<Rightarrow> fmt \<Rightarrow> nat \<Rightarrow> nat \<Rightarrow> int \<Rightarrow> error + num" where
  "read_component buffer_data data_type data_type_size normalize_divisor x =
     (case buffer_data of
        None \<Rightarrow> Inl TypeError
      | Some bs \<Rightarrow>
          ebind (struct_unpack data_type (py_slice bs x (x + int data_type_size)))
            (\<lambda>v. Inr (true_div v normalize_divisor)))"

definition make_entry :: "num list \<Rightarrow> error + entry" where
  "make_entry entries =
     (if length entries > 1 then Inr (Tuple entries)
      else (case entries of [] \<Rightarrow> Inl IndexError | v # _ \<Rightarrow> Inr (Scalar v)))"

definition read_entry ::
  "byte list option \<Rightarrow> fmt \<Rightarrow> nat \<Rightarrow> nat \<Rightarrow> nat \<Rightarrow> nat \<Rightarrow> int \<Rightarrow> error + entry" where
  "read_entry buffer_data data_type data_type_size normalize_divisor
       accessor_type_size accessor_component_type_size offset =
     ebind (emap (\<lambda>j. read_component buffer_data data_type data_type_size normalize_divisor
                        (offset + int j * int accessor_component_type_size))
              [0..<accessor_type_size])
       make_entry"

fun decode_loop :: "(int \<Rightarrow> error + entry) \<Rightarrow> int \<Rightarrow> nat \<Rightarrow> int \<Rightarrow> error + entry list" where
  "decode_loop rd bytestride 0 offset = Inr []"
| "decode_loop rd bytestride (Suc k) offset =
     (case rd offset of
        Inl e \<Rightarrow> Inl e
      | Inr x \<Rightarrow>
          (case decode_loop rd bytestride k (offset + bytestride) of
             Inl e \<Rightarrow> Inl e
           | Inr xs \<Rightarrow> Inr (x # xs)))"

text \<open>Lines 345 to 386: everything between the buffer bytes and the finished sequence.\<close>

definition decode_accessor :: "accessor \<Rightarrow> bufferview \<Rightarrow> byte list option \<Rightarrow> error + entry list" where
  "decode_accessor a bufferview buffer_data =
     ebind (to_AccessorComponentType (acc_componentType a))
       (\<lambda>accessor_component_type.
     ebind (accessor_type_count (acc_type a))
       (\<lambda>accessor_type_size.
          let accessor_component_type_size =
                accessor_component_type_bytesize accessor_component_type;
              bytestride = (case bv_byteStride bufferview of
                              Some s \<Rightarrow> s
                            | None \<Rightarrow> int (accessor_type_size * accessor_component_type_size));
              offset = (case acc_byteOffset a of Some off \<Rightarrow> off | None \<Rightarrow> 0)
          in ebind (component_format accessor_component_type a)
               (\<lambda>(data_type, data_type_size, normalize_divisor).
                  decode_loop
                    (read_entry buffer_data data_type data_type_size normalize_divisor
                       accessor_type_size accessor_component_type_size)
                    bytestride (nat (acc_count a)) offset)))"

text \<open>Lines 320 and 321: the buffer view of the accessor and the buffer of the view.\<close>

definition lookup_buffer :: "'o loader \<Rightarrow> accessor \<Rightarrow> error + bufferview \<times> buffer" where
  "lookup_buffer l a =
     (case json_data l of
        None \<Rightarrow> Inl AttributeError
      | Some doc \<Rightarrow>
          ebind (case j_bufferViews doc of
                   None \<Rightarrow> Inl KeyError
                 | Some bvs \<Rightarrow> py_index bvs (acc_bufferView a))
            (\<lambda>bufferview.
               ebind (case j_buffers doc of
                        None \<Rightarrow> Inl KeyError
                      | Some bufs \<Rightarrow> py_index bufs (bv_buffer bufferview))
                 (\<lambda>buffer. Inr (bufferview, buffer))))"

text \<open>
  \<^verbatim>\<open>get_data\<close> itself: a cached index returns its entry at once; otherwise the view and
  the buffer are looked up, the accessor's type is checked, the bytes are resolved and
  decoded, and the sequence is stored under the index.
\<close>

definition get_data ::
  "'o env \<Rightarrow> 'o loader \<Rightarrow> accessor \<Rightarrow> int \<Rightarrow> error + entry list \<times> 'o loader" where
  "get_data env l a accessor_index =
     (case accessor_data_map l accessor_index of
        Some cached \<Rightarrow> Inr (cached, l)
      | None \<Rightarrow>
          ebind (lookup_buffer l a)
            (\<lambda>(bufferview, buffer).
          ebind (to_AccessorType (acc_type a))
            (\<lambda>accessor_type.
          ebind (buffer_bytes env l bufferview buffer)
            (\<lambda>buffer_data.
          ebind (decode_accessor a bufferview buffer_data)
            (\<lambda>data_arr.
               Inr (data_arr,
                    l\<lparr>accessor_data_map :=
                        (accessor_data_map l)(accessor_index \<mapsto> data_arr)\<rparr>))))))"

text \<open>
  A run of later calls: each call that returns hands its loader to the next one; a call
  that raises leaves the loader as it was, since the only assignment of \<^verbatim>\<open>get_data\<close> is
  its last statement but one.
\<close>

definition run_calls :: "'o env \<Rightarrow> 'o loader \<Rightarrow> (accessor \<times> int) list \<Rightarrow> 'o loader" where
  "run_calls env l calls =
     fold (\<lambda>(a, i) s. case get_data env s a i of Inl e \<Rightarrow> s | Inr (d, s') \<Rightarrow> s') calls l"

section \<open>The decoding as the specification words it\<close>

text \<open>
  Component count by type, component size by component type, the normalisation divisor,
  the effective stride, and entry \<open>i\<close>, component \<open>j\<close> as the little-endian value at
  \<open>byteOffset + i * stride + j * componentByteSize\<close> of the resolved bytes.
\<close>

fun spec_component_count :: "AccessorType \<Rightarrow> nat" where
  "spec_component_count SCALAR = 1"
| "spec_component_count VEC2 = 2"
| "spec_component_count VEC3 = 3"
| "spec_component_count VEC4 = 4"
| "spec_component_count MAT2 = 4"
| "spec_component_count MAT3 = 9"
| "spec_component_count MAT4 = 16"

definition spec_component_size :: "accessor \<Rightarrow> nat" where
  "spec_component_size a =
     (if acc_componentType a = 5121 then 1
      else if acc_componentType a = 5123 then 2
      else 4)"

definition spec_divisor :: "accessor \<Rightarrow> nat" where
  "spec_divisor a =
     (if acc_normalized a = Some True \<and> acc_componentType a = 5121 then 255
      else if acc_normalized a = Some True \<and> acc_componentType a = 5123 then 65535
      else 1)"

definition spec_stride :: "accessor \<Rightarrow> bufferview \<Rightarrow> AccessorType \<Rightarrow> int" where
  "spec_stride a bv t =
     (case bv_byteStride bv of
        Some s \<Rightarrow> s
      | None \<Rightarrow> int (spec_component_count t * spec_component_size a))"

definition spec_position :: "accessor \<Rightarrow> bufferview \<Rightarrow> AccessorType \<Rightarrow> nat \<Rightarrow> nat \<Rightarrow> int" where
  "spec_position a bv t i j =
     (case acc_byteOffset a of Some off \<Rightarrow> off | None \<Rightarrow> 0)
       + int i * spec_stride a bv t + int j * int (spec_component_size a)"

definition spec_value :: "accessor \<Rightarrow> byte list \<Rightarrow> num" where
  "spec_value a w =
     (if acc_componentType a = 5126 then FloatDiv (of_nat (le_nat w)) (spec_divisor a)
      else IntDiv (le_nat w) (spec_divisor a))"

definition spec_component ::
  "accessor \<Rightarrow> bufferview \<Rightarrow> AccessorType \<Rightarrow> byte list \<Rightarrow> nat \<Rightarrow> nat \<Rightarrow> num" where
  "spec_component a bv t data i j =
     spec_value a (take (spec_component_size a) (drop (nat (spec_position a bv t i j)) data))"

definition spec_entry ::
  "accessor \<Rightarrow> bufferview \<Rightarrow> AccessorType \<Rightarrow> byte list \<Rightarrow> nat \<Rightarrow> entry" where
  "spec_entry a bv t data i =
     (if spec_component_count t = 1 then Scalar (spec_component a bv t data i 0)
      else Tuple (map (spec_component a bv t data i) [0..<spec_component_count t]))"

definition spec_decode ::
  "accessor \<Rightarrow> bufferview \<Rightarrow> AccessorType \<Rightarrow> byte list \<Rightarrow> entry list" where
  "spec_decode a bv t data = map (spec_entry a bv t data) [0..<nat (acc_count a)]"

text \<open>The bytes suffice when every window of every entry lies inside them.\<close>

definition window_inside :: "accessor \<Rightarrow> bufferview \<Rightarrow> AccessorType \<Rightarrow> byte list \<Rightarrow> nat \<Rightarrow> nat \<Rightarrow> bool" where
  "window_inside a bv t data i j =
     (0 \<le> spec_position a bv t i j
      \<and> nat (spec_position a bv t i j) + spec_component_size a \<le> length data)"

definition bytes_suffice :: "accessor \<Rightarrow> bufferview \<Rightarrow> AccessorType \<Rightarrow> byte list \<Rightarrow> bool" where
  "bytes_suffice a bv t data =
     list_all (\<lambda>i. list_all (window_inside a bv t data i) [0..<spec_component_count t])
       [0..<nat (acc_count a)]"

section \<open>Constructing the loader\<close>

text \<open>
  \<^verbatim>\<open>load_uri\<close>: an inline payload after the first comma, a remote fetch that gives
  \<^verbatim>\<open>None\<close> on a status of 400 or more, or a file below the folder.
\<close>

definition load_uri :: "'o env \<Rightarrow> string \<Rightarrow> string \<Rightarrow> error + byte list option" where
  "load_uri env s folder =
     (if startswith s ''data:'' then
        (if CHR '','' \<in> set s
         then ebind (b64decode env (drop 1 (dropWhile (\<lambda>c. c \<noteq> CHR '','') s)))
                (\<lambda>bs. Inr (Some bs))
         else Inl ValueError)
      else if startswith s ''http'' then
        ebind (requests_get env s)
          (\<lambda>(status_code, content). if status_code \<ge> 400 then Inr None else Inr (Some content))
      else (case read_file env (if folder \<noteq> [] then path_join env folder s else s) of
              None \<Rightarrow> Inl IOError
            | Some bs \<Rightarrow> Inr (Some bs)))"

definition MAGIC :: nat where "MAGIC = 0x46546C67"
definition JSON_CHUNK :: nat where "JSON_CHUNK = 0x4E4F534A"
definition BINARY_CHUNK :: nat where "BINARY_CHUNK = 0x004E4942"

text \<open>
  Lines 164 to 169: a binary chunk is bound to \<^verbatim>\<open>self.json_data['buffers'][0]\<close>. The
  attribute \<^verbatim>\<open>json_data\<close> exists only once a JSON chunk has been parsed.
\<close>

definition bind_binary_chunk :: "'o env \<Rightarrow> byte list \<Rightarrow> 'o loader \<Rightarrow> error + 'o loader" where
  "bind_binary_chunk env chunk l =
     (case json_data l of
        None \<Rightarrow> Inl AttributeError
      | Some doc \<Rightarrow>
          (case j_buffers doc of
             None \<Rightarrow> Inl KeyError
           | Some [] \<Rightarrow> Inl IndexError
           | Some (buffer # rest) \<Rightarrow>
               ebind (case buf_uri buffer of
                        None \<Rightarrow> Inr (Some (py_slice_to chunk (buf_byteLength buffer)))
                      | Some u \<Rightarrow>
                          if u \<noteq> [] then load_uri env u (root_dir l)
                          else Inr (Some (py_slice_to chunk (buf_byteLength buffer))))
                 (\<lambda>d. Inr (l\<lparr>json_data :=
                               Some (doc\<lparr>j_buffers :=
                                           Some (buffer\<lparr>buf_data := Some d\<rparr> # rest)\<rparr>)\<rparr>))))"

text \<open>
  Lines 151 to 171, the chunk loop over the rest of the file. An empty read ends it, and
  then the count of bytes is compared with the size the header declares; the
  \<^verbatim>\<open>raise ValueError('Expected ' + file_size + ...)\<close> of that branch adds a string and an
  integer, so what it raises is \<^verbatim>\<open>TypeError\<close>. A header of fewer than eight bytes does
  not unpack into two words (\<^verbatim>\<open>ValueError\<close>). The count adds the declared chunk size,
  not the number of bytes read, and the chunk size is a \<^verbatim>\<open>numpy.uint32\<close>: under the
  promotion rules of numpy 2 the sum is an unsigned 32-bit number and wraps around at
  \<open>2 ^ 32\<close> (older versions add in 64 bits; the two agree while the sum stays below
  \<open>2 ^ 32\<close>). An unknown chunk type raises \<^verbatim>\<open>TypeError\<close>.
\<close>

function read_chunks ::
  "'o env \<Rightarrow> nat \<Rightarrow> byte list \<Rightarrow> nat \<Rightarrow> 'o loader \<Rightarrow> error + 'o loader" where
  "read_chunks env file_size file_buffer total_bytes_read l =
     (let header_bytes = take 8 file_buffer in
      if header_bytes = [] then
        (if total_bytes_read \<noteq> file_size then Inl TypeError else Inr l)
      else if length header_bytes < 8 then Inl ValueError
      else
        (let chunk_size = le_nat (take 4 header_bytes);
             chunk_type = le_nat (drop 4 header_bytes);
             chunk = take chunk_size (drop 8 file_buffer);
             total_now = (total_bytes_read + 8 + chunk_size) mod 2 ^ 32
         in if chunk_type = JSON_CHUNK then
              (case json_loads_utf8 env chunk of
                 Inl e \<Rightarrow> Inl e
               | Inr doc \<Rightarrow>
                   read_chunks env file_size (drop (8 + chunk_size) file_buffer) total_now
                     (l\<lparr>json_data := Some doc\<rparr>))
            else if chunk_type = BINARY_CHUNK then
              (case bind_binary_chunk env chunk l of
                 Inl e \<Rightarrow> Inl e
               | Inr l' \<Rightarrow>
                   read_chunks env file_size (drop (8 + chunk_size) file_buffer) total_now l')
            else Inl TypeError))"
  by pat_completeness auto
termination
  by (relation "measure (\<lambda>(env, file_size, file_buffer, n, l). length file_buffer)") auto

declare read_chunks.simps [simp del]

text \<open>
  Lines 137 to 172: the twelve bytes of the header as three words; fewer bytes do not
  unpack into three (\<^verbatim>\<open>ValueError\<close>). The chunk loop runs only under
  \<^verbatim>\<open>if magic == MAGIC\<close>, which has no other branch.
\<close>

definition demux_glb :: "'o env \<Rightarrow> byte list \<Rightarrow> 'o loader \<Rightarrow> error + 'o loader" where
  "demux_glb env file_bytes l =
     (let header = take 12 file_bytes in
      if length header < 12 then Inl ValueError
      else
        (let magic = le_nat (take 4 header);
             glb_version = le_nat (take 4 (drop 4 header));
             file_size = le_nat (drop 8 header)
         in ebind (if magic = MAGIC then
                     (if glb_version \<noteq> 2 then Inl NotImplementedError
                      else read_chunks env file_size (drop 12 file_bytes) 12 l)
                   else Inr l)
              (\<lambda>l'. Inr (l'\<lparr>binary := True\<rparr>))))"

text \<open>Lines 174 to 180: the text form, read as UTF-8 and, failing that, in the default encoding.\<close>

definition load_text :: "'o env \<Rightarrow> byte list \<Rightarrow> 'o loader \<Rightarrow> error + 'o loader" where
  "load_text env file_bytes l =
     ebind (case json_loads_utf8 env file_bytes of
              Inl e \<Rightarrow> if e = UnicodeDecodeError then json_load_default env file_bytes else Inl e
            | Inr doc \<Rightarrow> Inr doc)
       (\<lambda>doc. Inr (l\<lparr>json_data := Some doc, binary := False\<rparr>))"

text \<open>The steps of \<^verbatim>\<open>_initialize\<close>, in its order.\<close>

definition initialize_asset :: "'o env \<Rightarrow> 'o loader \<Rightarrow> error + 'o loader" where
  "initialize_asset env l =
     (case json_data l of
        None \<Rightarrow> Inl AttributeError
      | Some doc \<Rightarrow>
          (case j_asset doc of
             Some e \<Rightarrow> ebind (Asset_new env e) (\<lambda>x. Inr (l\<lparr>asset := Some x\<rparr>))
           | None \<Rightarrow> Inr (l\<lparr>asset := None\<rparr>)))"

fun build_objects ::
  "('e \<Rightarrow> nat \<Rightarrow> 'o loader \<Rightarrow> error + 'x \<times> 'o loader) \<Rightarrow> ('x \<Rightarrow> 'o loader \<Rightarrow> 'o loader)
    \<Rightarrow> 'e list \<Rightarrow> nat \<Rightarrow> 'o loader \<Rightarrow> error + 'o loader" where
  "build_objects ctor store [] i l = Inr l"
| "build_objects ctor store (e # es) i l =
     (case ctor e i l of
        Inl x \<Rightarrow> Inl x
      | Inr (obj, l') \<Rightarrow> build_objects ctor store es (Suc i) (store obj l'))"

definition initialize_images :: "'o env \<Rightarrow> 'o loader \<Rightarrow> error + 'o loader" where
  "initialize_images env l =
     (case json_data l of
        None \<Rightarrow> Inl AttributeError
      | Some doc \<Rightarrow>
          (case j_images doc of
             None \<Rightarrow> Inr (l\<lparr>images := []\<rparr>)
           | Some es \<Rightarrow>
               build_objects (GLTFImage_new env) (\<lambda>x s. s\<lparr>images := images s @ [x]\<rparr>)
                 es 0 (l\<lparr>images := []\<rparr>)))"

definition initialize_materials :: "'o env \<Rightarrow> 'o loader \<Rightarrow> error + 'o loader" where
  "initialize_materials env l =
     (case json_data l of
        None \<Rightarrow> Inl AttributeError
      | Some doc \<Rightarrow>
          (case j_materials doc of
             None \<Rightarrow> Inr (l\<lparr>materials := []\<rparr>)
           | Some es \<Rightarrow>
               build_objects (Material_new env) (\<lambda>x s. s\<lparr>materials := materials s @ [x]\<rparr>)
                 es 0 (l\<lparr>materials := []\<rparr>)))"

definition initialize_meshes :: "'o env \<Rightarrow> 'o loader \<Rightarrow> error + 'o loader" where
  "initialize_meshes env l =
     (case json_data l of
        None \<Rightarrow> Inl AttributeError
      | Some doc \<Rightarrow>
          (case j_meshes doc of
             None \<Rightarrow> Inr (l\<lparr>meshes := []\<rparr>)
           | Some es \<Rightarrow>
               build_objects (Mesh_new env) (\<lambda>x s. s\<lparr>meshes := meshes s @ [x]\<rparr>)
                 es 0 (l\<lparr>meshes := []\<rparr>)))"

text \<open>
  Lines 217 to 223: for an entry with \<^verbatim>\<open>children\<close>, each child gets the parent and is
  appended to the parent's children.
\<close>

fun wire_children :: "nat \<Rightarrow> int list \<Rightarrow> 'o node list \<Rightarrow> error + 'o node list" where
  "wire_children i [] ns = Inr ns"
| "wire_children i (c # cs) ns =
     (case py_position (length ns) c of
        None \<Rightarrow> Inl IndexError
      | Some k \<Rightarrow>
          (let ns1 = ns[k := (ns ! k)\<lparr>node_parent := Some i\<rparr>];
               ns2 = ns1[i := (ns1 ! i)\<lparr>node_children := node_children (ns1 ! i) @ [k]\<rparr>]
           in wire_children i cs ns2))"

fun wire_nodes :: "nat \<Rightarrow> node_json list \<Rightarrow> 'o node list \<Rightarrow> error + 'o node list" where
  "wire_nodes i [] ns = Inr ns"
| "wire_nodes i (e # es) ns =
     (case nj_children e of
        None \<Rightarrow> wire_nodes (Suc i) es ns
      | Some cs \<Rightarrow>
          if i < length ns
          then (case wire_children i cs ns of
                  Inl x \<Rightarrow> Inl x
                | Inr ns' \<Rightarrow> wire_nodes (Suc i) es ns')
          else Inl IndexError)"

definition initialize_nodes :: "'o env \<Rightarrow> 'o loader \<Rightarrow> error + 'o loader" where
  "initialize_nodes env l =
     (case json_data l of
        None \<Rightarrow> Inl AttributeError
      | Some doc \<Rightarrow>
          (case j_nodes doc of
             None \<Rightarrow> Inr (l\<lparr>nodes := []\<rparr>)
           | Some es \<Rightarrow>
               ebind (build_objects (Node_new env) (\<lambda>x s. s\<lparr>nodes := nodes s @ [x]\<rparr>)
                        es 0 (l\<lparr>nodes := []\<rparr>))
                 (\<lambda>l1. case json_data l1 of
                          None \<Rightarrow> Inl AttributeError
                        | Some doc1 \<Rightarrow>
                            (case j_nodes doc1 of
                               None \<Rightarrow> Inl KeyError
                             | Some es1 \<Rightarrow>
                                 ebind (wire_nodes 0 es1 (nodes l1))
                                   (\<lambda>ns. Inr (l1\<lparr>nodes := ns\<rparr>))))))"

text \<open>
  Lines 290 to 296: the skins are built into a list that is assigned when complete, then
  each node with a skin index gets the skin at that index.
\<close>

fun build_skins :: "'o env \<Rightarrow> json list \<Rightarrow> 'o loader \<Rightarrow> error + 'o list \<times> 'o loader" where
  "build_skins env [] l = Inr ([], l)"
| "build_skins env (e # es) l =
     (case Skin_new env l e of
        Inl x \<Rightarrow> Inl x
      | Inr (sk, l') \<Rightarrow>
          (case build_skins env es l' of
             Inl x \<Rightarrow> Inl x
           | Inr (sks, l'') \<Rightarrow> Inr (sk # sks, l'')))"

definition bind_skin :: "'o list \<Rightarrow> 'o node \<Rightarrow> error + 'o node" where
  "bind_skin sks n =
     (case node_skin_index n of
        None \<Rightarrow> Inr n
      | Some k \<Rightarrow> ebind (py_index sks k) (\<lambda>sk. Inr (n\<lparr>node_skin := Some sk\<rparr>)))"

definition initialize_skins :: "'o env \<Rightarrow> 'o loader \<Rightarrow> error + 'o loader" where
  "initialize_skins env l =
     (case json_data l of
        None \<Rightarrow> Inl AttributeError
      | Some doc \<Rightarrow>
          (case j_skins doc of
             None \<Rightarrow> Inr (l\<lparr>skins := []\<rparr>)
           | Some es \<Rightarrow>
               ebind (build_skins env es (l\<lparr>skins := []\<rparr>))
                 (\<lambda>(sks, l1).
                    ebind (emap (bind_skin sks) (nodes l1))
                      (\<lambda>ns. Inr (l1\<lparr>skins := sks, nodes := ns\<rparr>)))))"

text \<open>
  Lines 233 to 244: without the key \<^verbatim>\<open>scenes\<close> the main scene stays \<^verbatim>\<open>None\<close>; with it,
  the main scene is \<^verbatim>\<open>self._scenes[self.json_data['scene']]\<close>, or \<^verbatim>\<open>self._scenes[0]\<close>
  when the key \<^verbatim>\<open>scene\<close> is absent.
\<close>

fun build_scenes :: "'o env \<Rightarrow> json list \<Rightarrow> nat \<Rightarrow> 'o loader \<Rightarrow> error + 'o loader" where
  "build_scenes env [] i l = Inr l"
| "build_scenes env (e # es) i l =
     (case Scene_new env e i (nodes l) of
        Inl x \<Rightarrow> Inl x
      | Inr sc \<Rightarrow> build_scenes env es (Suc i) (l\<lparr>scenes := scenes l @ [sc]\<rparr>))"

definition initialize_scenes :: "'o env \<Rightarrow> 'o loader \<Rightarrow> error + 'o loader" where
  "initialize_scenes env l =
     (case json_data l of
        None \<Rightarrow> Inl AttributeError
      | Some doc \<Rightarrow>
          (case j_scenes doc of
             None \<Rightarrow> Inr (l\<lparr>scenes := [], main_scene := None\<rparr>)
           | Some es \<Rightarrow>
               ebind (build_scenes env es 0 (l\<lparr>scenes := [], main_scene := None\<rparr>))
                 (\<lambda>l1. ebind (py_index (scenes l1)
                                 (case j_scene doc of Some k \<Rightarrow> k | None \<Rightarrow> 0))
                          (\<lambda>sc. Inr (l1\<lparr>main_scene := Some sc\<rparr>)))))"

definition initialize_animations :: "'o env \<Rightarrow> 'o loader \<Rightarrow> error + 'o loader" where
  "initialize_animations env l =
     (case json_data l of
        None \<Rightarrow> Inl AttributeError
      | Some doc \<Rightarrow>
          (case j_animations doc of
             None \<Rightarrow> Inr (l\<lparr>animations := []\<rparr>)
           | Some es \<Rightarrow>
               build_objects (Animation_new env) (\<lambda>x s. s\<lparr>animations := animations s @ [x]\<rparr>)
                 es 0 (l\<lparr>animations := []\<rparr>)))"

definition initialize :: "'o env \<Rightarrow> 'o loader \<Rightarrow> error + 'o loader" where
  "initialize env l =
     ebind (initialize_asset env l) (\<lambda>l.
     ebind (initialize_images env l) (\<lambda>l.
     ebind (initialize_materials env l) (\<lambda>l.
     ebind (initialize_meshes env l) (\<lambda>l.
     ebind (initialize_nodes env l) (\<lambda>l.
     ebind (initialize_skins env l) (\<lambda>l.
     ebind (initialize_scenes env l) (\<lambda>l.
     initialize_animations env l)))))))"

text \<open>
  \<^verbatim>\<open>__init__\<close>: the path must be a file and end in \<^verbatim>\<open>.gltf\<close> or \<^verbatim>\<open>.glb\<close>; the container
  is read in its form, and \<^verbatim>\<open>_initialize\<close> runs on the result.
\<close>

definition new_loader :: "'o env \<Rightarrow> string \<Rightarrow> 'o \<Rightarrow> bool \<Rightarrow> bool \<Rightarrow> 'o loader" where
  "new_loader env gltf_file profile optimize generate =
     \<lparr>usdz_profile = profile, accessor_data_map = Map.empty,
      root_dir = dirname env gltf_file, optimize_textures = optimize,
      generate_texture_transform_texture = generate, json_data = None, binary = False,
      asset = None, images = [], materials = [], meshes = [], nodes = [], skins = [],
      scenes = [], main_scene = None, animations = []\<rparr>"

definition GLTF2Loader_init ::
  "'o env \<Rightarrow> string \<Rightarrow> 'o \<Rightarrow> bool \<Rightarrow> bool \<Rightarrow> error + 'o loader" where
  "GLTF2Loader_init env gltf_file profile optimize generate =
     (case read_file env gltf_file of
        None \<Rightarrow> Inl (PyException ''file does not exist'')
      | Some file_bytes \<Rightarrow>
          if \<not> endswith gltf_file ''.gltf'' \<and> \<not> endswith gltf_file ''.glb''
          then Inl (PyException ''Can only accept .gltf/glb files'')
          else ebind (if endswith gltf_file ''.glb''
                      then demux_glb env file_bytes
                             (new_loader env gltf_file profile optimize generate)
                      else load_text env file_bytes
                             (new_loader env gltf_file profile optimize generate))
                 (initialize env))"

definition get_main_scene :: "'o loader \<Rightarrow> 'o option" where
  "get_main_scene l = main_scene l"

section \<open>Containers and sample inputs\<close>

text \<open>
  A binary container as the format lays it out: a word is four bytes, least significant
  first; the header is magic, version and total length; a chunk is its length, its type
  and its payload.
\<close>

definition le32 :: "nat \<Rightarrow> byte list" where
  "le32 n = [of_nat n, of_nat (n div 256), of_nat (n div 65536), of_nat (n div 16777216)]"

definition glb_header :: "nat \<Rightarrow> byte list" where
  "glb_header n = le32 MAGIC @ le32 2 @ le32 n"

definition glb_chunk :: "nat \<Rightarrow> byte list \<Rightarrow> byte list" where
  "glb_chunk chunk_type payload = le32 (length payload) @ le32 chunk_type @ payload"

text \<open>
  Sample surroundings: objects of module \<^verbatim>\<open>gltf2\<close> are numbers (the index they were
  built at), the file system and the JSON parser are tables.
\<close>

definition sample_env ::
  "(string \<Rightarrow> byte list option) \<Rightarrow> (byte list \<Rightarrow> error + gltf_json) \<Rightarrow> nat env" where
  "sample_env fs parse =
     \<lparr>read_file = fs, dirname = (\<lambda>p. []), path_join = (\<lambda>a b. a @ ''/'' @ b),
      json_loads_utf8 = parse, json_load_default = parse,
      b64decode = (\<lambda>s. Inl ValueError), requests_get = (\<lambda>s. Inl IOError),
      Asset_new = (\<lambda>e. Inr 0),
      GLTFImage_new = (\<lambda>e i l. Inr (i, l)),
      Material_new = (\<lambda>e i l. Inr (i, l)),
      Mesh_new = (\<lambda>e i l. Inr (i, l)),
      Node_new = (\<lambda>e i l. Inr (\<lparr>node_obj = i, node_parent = None, node_children = [],
                                   node_skin_index = None, node_skin = None\<rparr>, l)),
      Skin_new = (\<lambda>l e. Inr (0, l)),
      Scene_new = (\<lambda>e i ns. Inr i),
      Animation_new = (\<lambda>e i l. Inr (i, l))\<rparr>"

definition no_files :: "string \<Rightarrow> byte list option" where
  "no_files p = None"

definition no_parse :: "byte list \<Rightarrow> error + gltf_json" where
  "no_parse bs = Inl ValueError"

definition sample_doc :: "bufferview list \<Rightarrow> buffer list \<Rightarrow> gltf_json" where
  "sample_doc bvs bufs =
     \<lparr>j_asset = None, j_images = None, j_materials = None, j_meshes = None, j_nodes = None,
      j_skins = None, j_scenes = None, j_scene = None, j_animations = None,
      j_buffers = Some bufs, j_bufferViews = Some bvs\<rparr>"

definition sample_loader :: "bool \<Rightarrow> gltf_json \<Rightarrow> nat loader" where
  "sample_loader bin doc =
     (new_loader (sample_env no_files no_parse) ''model.glb'' 0 False True)
       \<lparr>json_data := Some doc, binary := bin\<rparr>"

text \<open>
  A view without stride over a bound buffer of the bytes 255, 0, 128, and a normalised
  VEC3 accessor of unsigned bytes on it.
\<close>

definition bytes3_doc :: gltf_json where
  "bytes3_doc =
     sample_doc
       [\<lparr>bv_buffer = 0, bv_byteOffset = None, bv_byteLength = 3, bv_byteStride = None\<rparr>]
       [\<lparr>buf_byteLength = 3, buf_uri = None, buf_data = Some (Some [255, 0, 128])\<rparr>]"

definition vec3_ubyte_normalized :: accessor where
  "vec3_ubyte_normalized =
     \<lparr>acc_bufferView = 0, acc_byteOffset = None, acc_componentType = 5121,
      acc_type = ''VEC3'', acc_count = 1, acc_normalized = Some True\<rparr>"

definition vec3_byte :: accessor where
  "vec3_byte = vec3_ubyte_normalized\<lparr>acc_componentType := 5120\<rparr>"

text \<open>
  A view that declares one byte over a bound buffer of the four bytes 1, 2, 3, 4, and a
  scalar accessor of one unsigned 32-bit integer on it.
\<close>

definition one_byte_view :: bufferview where
  "one_byte_view =
     \<lparr>bv_buffer = 0, bv_byteOffset = None, bv_byteLength = 1, bv_byteStride = None\<rparr>"

definition four_bytes_buffer :: buffer where
  "four_bytes_buffer =
     \<lparr>buf_byteLength = 4, buf_uri = None, buf_data = Some (Some [1, 2, 3, 4])\<rparr>"

definition one_byte_doc :: gltf_json where
  "one_byte_doc = sample_doc [one_byte_view] [four_bytes_buffer]"

definition scalar_uint :: accessor where
  "scalar_uint =
     \<lparr>acc_bufferView = 0, acc_byteOffset = None, acc_componentType = 5125,
      acc_type = ''SCALAR'', acc_count = 1, acc_normalized = None\<rparr>"

text \<open>The text form with a buffer that has no \<^verbatim>\<open>uri\<close>.\<close>

definition no_uri_view :: bufferview where
  "no_uri_view =
     \<lparr>bv_buffer = 0, bv_byteOffset = None, bv_byteLength = 3, bv_byteStride = None\<rparr>"

definition no_uri_buffer :: buffer where
  "no_uri_buffer = \<lparr>buf_byteLength = 3, buf_uri = None, buf_data = None\<rparr>"

definition no_uri_doc :: gltf_json where
  "no_uri_doc = sample_doc [no_uri_view] [no_uri_buffer]"

text \<open>
  Sample files. The parser table reads the payload \<^verbatim>\<open>{}\<close> as a document with one
  buffer of three bytes, the payload \<^verbatim>\<open>{ }\<close> as a document whose one buffer names the
  file \<^verbatim>\<open>data.bin\<close>, and the payload \<^verbatim>\<open>{\<close> as a document whose \<^verbatim>\<open>scenes\<close> is the empty
  list. The containers: one whose first word is not the magic number; one of 22 bytes
  (header and a JSON chunk) whose header declares 23; the JSON chunk alone; the binary
  chunk before the JSON chunk, and the same chunks in the other order; the JSON chunk of
  the document with the file name, followed by the binary chunk.
\<close>

definition one_buffer_doc :: gltf_json where
  "one_buffer_doc =
     sample_doc [] [\<lparr>buf_byteLength = 3, buf_uri = None, buf_data = None\<rparr>]"

definition uri_buffer_doc :: gltf_json where
  "uri_buffer_doc =
     sample_doc [] [\<lparr>buf_byteLength = 3, buf_uri = Some ''data.bin'', buf_data = None\<rparr>]"

definition empty_scenes_doc :: gltf_json where
  "empty_scenes_doc = (sample_doc [] [])\<lparr>j_scenes := Some []\<rparr>"

definition sample_parse :: "byte list \<Rightarrow> error + gltf_json" where
  "sample_parse bs =
     (if bs = [0x7B, 0x7D] then Inr one_buffer_doc
      else if bs = [0x7B] then Inr empty_scenes_doc
      else if bs = [0x7B, 0x20, 0x7D] then Inr uri_buffer_doc
      else Inl ValueError)"

definition bad_magic_glb :: "byte list" where
  "bad_magic_glb = [0, 0, 0, 0, 2, 0, 0, 0, 12, 0, 0, 0]"

definition truncated_glb :: "byte list" where
  "truncated_glb = glb_header 23 @ glb_chunk JSON_CHUNK [0x7B, 0x7D]"

definition json_only_glb :: "byte list" where
  "json_only_glb = glb_header 22 @ glb_chunk JSON_CHUNK [0x7B, 0x7D]"

definition bin_first_glb :: "byte list" where
  "bin_first_glb =
     glb_header 34 @ glb_chunk BINARY_CHUNK [1, 2, 3, 4] @ glb_chunk JSON_CHUNK [0x7B, 0x7D]"

definition json_first_glb :: "byte list" where
  "json_first_glb =
     glb_header 34 @ glb_chunk JSON_CHUNK [0x7B, 0x7D] @ glb_chunk BINARY_CHUNK [1, 2, 3, 4]"

definition json_uri_glb :: "byte list" where
  "json_uri_glb =
     glb_header 35 @ glb_chunk JSON_CHUNK [0x7B, 0x20, 0x7D]
       @ glb_chunk BINARY_CHUNK [1, 2, 3, 4]"

definition sample_files :: "string \<Rightarrow> byte list option" where
  "sample_files p =
     (if p = ''bad_magic.glb'' then Some bad_magic_glb
      else if p = ''truncated.glb'' then Some truncated_glb
      else if p = ''bin_first.glb'' then Some bin_first_glb
      else if p = ''json_first.glb'' then Some json_first_glb
      else if p = ''empty_scenes.gltf'' then Some [0x7B]
      else if p = ''data.bin'' then Some [9, 8, 7, 6]
      else None)"

section \<open>Auxiliary facts\<close>

lemma ebind_Inr [simp]: "ebind (Inr x) f = f x"
  by (simp add: ebind_def)

lemma ebind_Inl [simp]: "ebind (Inl e) f = Inl e"
  by (simp add: ebind_def)

lemma emap_all_Inr: "(\<And>x. x \<in> set xs \<Longrightarrow> f x = Inr (g x)) \<Longrightarrow> emap f xs = Inr (map g xs)"
  by (induction xs) simp_all

lemma emap_some_Inl:
  assumes "x \<in> set xs" and "f x = Inl e" and all: "\<And>y e'. f y = Inl e' \<Longrightarrow> e' = e"
  shows "emap f xs = Inl e"
  using assms(1)
proof (induction xs)
  case Nil then show ?case by simp
next
  case (Cons z zs)
  show ?case
  proof (cases "f z")
    case (Inl e')
    from all[OF Inl] have "e' = e" .
    with Inl show ?thesis by simp
  next
    case (Inr v)
    have "x \<noteq> z"
    proof
      assume "x = z"
      with assms(2) Inr show False by simp
    qed
    with Cons.prems have mem: "x \<in> set zs" by simp
    have "emap f zs = Inl e" by (rule Cons.IH[OF mem])
    with Inr show ?thesis by simp
  qed
qed

lemma py_slice_window:
  assumes "0 \<le> x" and "nat x + n \<le> length bs"
  shows "py_slice bs x (x + int n) = take n (drop (nat x) bs)"
proof -
  have l: "py_clamp x (length bs) = nat x" using assms by (simp add: py_clamp_def)
  have "nat (x + int n) = nat x + n" using assms by (simp add: nat_add_distrib)
  then have h: "py_clamp (x + int n) (length bs) = nat x + n"
    using assms by (simp add: py_clamp_def)
  show ?thesis by (simp add: py_slice_def l h)
qed

lemma py_slice_short:
  assumes "0 \<le> x" and "0 < n" and "length bs < nat x + n"
  shows "length (py_slice bs x (x + int n)) \<noteq> n"
proof -
  have l: "py_clamp x (length bs) = min (nat x) (length bs)"
    using assms by (simp add: py_clamp_def)
  have "nat (x + int n) = nat x + n" using assms by (simp add: nat_add_distrib)
  then have h: "py_clamp (x + int n) (length bs) = length bs"
    using assms by (simp add: py_clamp_def)
  have "length (py_slice bs x (x + int n)) = length bs - min (nat x) (length bs)"
    by (simp add: py_slice_def l h)
  with assms show ?thesis by arith
qed

lemma decode_loop_all_Inr:
  "(\<And>i. i < k \<Longrightarrow> rd (off + int i * stride) = Inr (g i))
    \<Longrightarrow> decode_loop rd stride k off = Inr (map g [0..<k])"
proof (induction k arbitrary: off g)
  case 0 then show ?case by simp
next
  case (Suc k)
  have h0: "rd off = Inr (g 0)" using Suc.prems[of 0] by simp
  have step: "rd (off + stride + int i * stride) = Inr (g (Suc i))" if "i < k" for i
  proof -
    have "off + stride + int i * stride = off + int (Suc i) * stride"
      by (simp add: algebra_simps)
    moreover have "rd (off + int (Suc i) * stride) = Inr (g (Suc i))"
      using that by (intro Suc.prems) simp
    ultimately show ?thesis by (simp only:)
  qed
  have "decode_loop rd stride k (off + stride) = Inr (map (\<lambda>i. g (Suc i)) [0..<k])"
    by (rule Suc.IH) (rule step)
  moreover have "map g [0..<Suc k] = g 0 # map (\<lambda>i. g (Suc i)) [0..<k]"
    by (simp only: upt_conv_Cons [of 0 "Suc k"] map_Suc_upt [symmetric] list.map zero_less_Suc
          if_True map_map comp_def)
  ultimately show ?case using h0 by (simp del: upt_Suc)
qed

lemma decode_loop_some_Inl:
  assumes all: "\<And>x e'. rd x = Inl e' \<Longrightarrow> e' = e"
  shows "i < k \<Longrightarrow> rd (off + int i * stride) = Inl e \<Longrightarrow> decode_loop rd stride k off = Inl e"
proof (induction k arbitrary: off i)
  case 0 then show ?case by simp
next
  case (Suc k)
  show ?case
  proof (cases "rd off")
    case (Inl e')
    from all[OF Inl] have "e' = e" .
    with Inl show ?thesis by simp
  next
    case (Inr v)
    have "i \<noteq> 0"
    proof
      assume "i = 0"
      with Suc.prems(2) Inr show False by simp
    qed
    then obtain i' where i': "i = Suc i'" by (cases i) simp_all
    have lt: "i' < k" using Suc.prems(1) i' by simp
    have "off + int i * stride = off + stride + int i' * stride"
      by (simp add: i' algebra_simps)
    with Suc.prems(2) have rd: "rd (off + stride + int i' * stride) = Inl e" by (simp only:)
    have "decode_loop rd stride k (off + stride) = Inl e"
      by (rule Suc.IH[OF lt rd])
    with Inr show ?thesis by simp
  qed
qed

text \<open>A type that is a member of the enumeration has its count in the dictionary.\<close>

lemma accessor_type_count_of_type:
  "to_AccessorType s = Inr t \<Longrightarrow> accessor_type_count s = Inr (spec_component_count t)"
  by (auto simp add: to_AccessorType_def accessor_type_count_def split: if_splits)

lemma spec_component_count_pos: "0 < spec_component_count t"
  by (cases t) simp_all

text \<open>
  The four supported component types: the format found by the source, with the size and
  divisor of the specification, and the unpacked and divided value of a window of that size.
\<close>

lemma supported_format:
  assumes "acc_componentType a \<in> {5121, 5123, 5125, 5126}"
  obtains c f where
    "to_AccessorComponentType (acc_componentType a) = Inr c"
    "accessor_component_type_bytesize c = spec_component_size a"
    "component_format c a = Inr (f, spec_component_size a, spec_divisor a)"
    "fmt_size f = spec_component_size a"
    "\<And>w. length w = spec_component_size a \<Longrightarrow>
        ebind (struct_unpack f w) (\<lambda>v. Inr (true_div v (spec_divisor a))) = Inr (spec_value a w)"
proof -
  consider "acc_componentType a = 5121" | "acc_componentType a = 5123"
    | "acc_componentType a = 5125" | "acc_componentType a = 5126"
    using assms by auto
  then show ?thesis
  proof cases
    case 1
    show ?thesis
      by (rule that[of UNSIGNED_BYTE Fmt_B])
         (simp_all add: 1 to_AccessorComponentType_def spec_component_size_def spec_divisor_def
            is_normalized_def struct_unpack_def spec_value_def)
  next
    case 2
    show ?thesis
      by (rule that[of UNSIGNED_SHORT Fmt_H])
         (simp_all add: 2 to_AccessorComponentType_def spec_component_size_def spec_divisor_def
            is_normalized_def struct_unpack_def spec_value_def)
  next
    case 3
    show ?thesis
      by (rule that[of UNSIGNED_INT Fmt_I])
         (simp_all add: 3 to_AccessorComponentType_def spec_component_size_def spec_divisor_def
            is_normalized_def struct_unpack_def spec_value_def)
  next
    case 4
    show ?thesis
      by (rule that[of FLOAT Fmt_f])
         (simp_all add: 4 to_AccessorComponentType_def spec_component_size_def spec_divisor_def
            is_normalized_def struct_unpack_def spec_value_def)
  qed
qed

lemma make_entry_components:
  "0 < n \<Longrightarrow> make_entry (map g [0..<n]) = Inr (if n = 1 then Scalar (g 0) else Tuple (map g [0..<n]))"
proof -
  assume "0 < n"
  then obtain m where m: "n = Suc m" by (cases n) simp_all
  have "map g [0..<Suc m] = g 0 # map (\<lambda>i. g (Suc i)) [0..<m]"
    by (simp only: upt_conv_Cons [of 0 "Suc m"] map_Suc_upt [symmetric] list.map zero_less_Suc
          if_True map_map comp_def)
  then show ?thesis
    by (cases m) (simp_all add: make_entry_def m del: upt_Suc)
qed

lemma decode_accessor_supported:
  assumes ct: "acc_componentType a \<in> {5121, 5123, 5125, 5126}"
      and ty: "to_AccessorType (acc_type a) = Inr t"
      and fit: "bytes_suffice a bv t data"
  shows "decode_accessor a bv (Some data) = Inr (spec_decode a bv t data)"
proof (rule supported_format[OF ct])
  fix c f
  assume c: "to_AccessorComponentType (acc_componentType a) = Inr c"
    and sz: "accessor_component_type_bytesize c = spec_component_size a"
    and fm: "component_format c a = Inr (f, spec_component_size a, spec_divisor a)"
    and fs: "fmt_size f = spec_component_size a"
    and up: "\<And>w. length w = spec_component_size a \<Longrightarrow>
        ebind (struct_unpack f w) (\<lambda>v. Inr (true_div v (spec_divisor a))) = Inr (spec_value a w)"
  let ?n = "spec_component_count t"
  let ?s = "spec_component_size a"
  let ?off = "case acc_byteOffset a of Some off \<Rightarrow> off | None \<Rightarrow> 0"
  let ?stride = "spec_stride a bv t"
  have inside: "window_inside a bv t data i j" if "i < nat (acc_count a)" "j < ?n" for i j
    using fit that by (simp add: bytes_suffice_def list_all_iff)
  have comp: "read_component (Some data) f ?s (spec_divisor a)
                (?off + int i * ?stride + int j * int ?s) = Inr (spec_component a bv t data i j)"
    if "i < nat (acc_count a)" "j < ?n" for i j
  proof -
    have pos: "?off + int i * ?stride + int j * int ?s = spec_position a bv t i j"
      by (simp add: spec_position_def)
    from inside[OF that] have ge: "0 \<le> spec_position a bv t i j"
      and le: "nat (spec_position a bv t i j) + ?s \<le> length data"
      by (simp_all add: window_inside_def)
    have sl: "py_slice data (spec_position a bv t i j) (spec_position a bv t i j + int ?s)
                = take ?s (drop (nat (spec_position a bv t i j)) data)"
      by (rule py_slice_window[OF ge le])
    have len: "length (take ?s (drop (nat (spec_position a bv t i j)) data)) = ?s"
      using le by simp
    show ?thesis
      unfolding pos read_component_def option.case sl spec_component_def
      by (rule up[OF len])
  qed
  have ent: "read_entry (Some data) f ?s (spec_divisor a) ?n ?s (?off + int i * ?stride)
               = Inr (spec_entry a bv t data i)"
    if "i < nat (acc_count a)" for i
  proof -
    have "emap (\<lambda>j. read_component (Some data) f ?s (spec_divisor a)
                      (?off + int i * ?stride + int j * int ?s)) [0..<?n]
            = Inr (map (spec_component a bv t data i) [0..<?n])"
      by (rule emap_all_Inr) (simp add: comp[OF that])
    then show ?thesis
      by (simp add: read_entry_def spec_entry_def
            make_entry_components[OF spec_component_count_pos])
  qed
  have loop: "decode_loop (read_entry (Some data) f ?s (spec_divisor a) ?n ?s) ?stride
                (nat (acc_count a)) ?off = Inr (map (spec_entry a bv t data) [0..<nat (acc_count a)])"
    by (rule decode_loop_all_Inr) (rule ent)
  have st: "(case bv_byteStride bv of
               Some s \<Rightarrow> s
             | None \<Rightarrow> int (?n * accessor_component_type_bytesize c)) = ?stride"
    by (cases "bv_byteStride bv") (simp_all add: spec_stride_def sz)
  show "decode_accessor a bv (Some data) = Inr (spec_decode a bv t data)"
    by (simp add: decode_accessor_def c accessor_type_count_of_type[OF ty] sz fm st loop
          spec_decode_def Let_def)
qed

lemma length_spec_decode: "length (spec_decode a bv t data) = nat (acc_count a)"
  by (simp add: spec_decode_def)

lemma get_data_state:
  assumes "get_data env l a i = Inr (r, l')"
  shows "l' = l\<lparr>accessor_data_map := (accessor_data_map l)(i \<mapsto> r)\<rparr>"
proof (cases "accessor_data_map l i")
  case (Some c)
  with assms have "r = c" "l' = l" by (simp_all add: get_data_def)
  moreover have "(accessor_data_map l)(i \<mapsto> c) = accessor_data_map l"
    using Some by (rule map_upd_triv)
  ultimately show ?thesis by simp
next
  case None
  with assms show ?thesis
    by (auto simp add: get_data_def ebind_def split: sum.splits prod.splits)
qed

lemma get_data_cached:
  "accessor_data_map l i = Some d \<Longrightarrow> get_data env l a i = Inr (d, l)"
  by (simp add: get_data_def)

lemma get_data_keeps:
  assumes "get_data env l a j = Inr (r, l')" and "accessor_data_map l i = Some d"
  shows "accessor_data_map l' i = Some d"
proof (cases "j = i")
  case True
  with assms show ?thesis by (simp add: get_data_def)
next
  case False
  from get_data_state[OF assms(1)] have "accessor_data_map l' = (accessor_data_map l)(j \<mapsto> r)"
    by simp
  with False assms(2) show ?thesis by simp
qed

lemma run_calls_keeps:
  "accessor_data_map l i = Some d \<Longrightarrow> accessor_data_map (run_calls env l calls) i = Some d"
proof (induction calls arbitrary: l)
  case Nil
  then show ?case by (simp add: run_calls_def)
next
  case (Cons c cs)
  obtain a j where c: "c = (a, j)" by (cases c)
  show ?case
  proof (cases "get_data env l a j")
    case (Inl e)
    then have "run_calls env l (c # cs) = run_calls env l cs"
      by (simp add: run_calls_def c)
    with Cons show ?thesis by simp
  next
    case (Inr p)
    obtain r l' where p: "p = (r, l')" by (cases p)
    from Inr p have g: "get_data env l a j = Inr (r, l')" by simp
    then have "run_calls env l (c # cs) = run_calls env l' cs"
      by (simp add: run_calls_def c)
    moreover have "accessor_data_map l' i = Some d"
      by (rule get_data_keeps[OF g Cons.prems])
    ultimately show ?thesis using Cons.IH by simp
  qed
qed

lemma get_data_supported:
  assumes miss: "accessor_data_map l i = None"
      and lk: "lookup_buffer l a = Inr (bv, buf)"
      and ty: "to_AccessorType (acc_type a) = Inr t"
      and bytes: "buffer_bytes env l bv buf = Inr (Some data)"
      and ct: "acc_componentType a \<in> {5121, 5123, 5125, 5126}"
      and fit: "bytes_suffice a bv t data"
  shows "get_data env l a i =
           Inr (spec_decode a bv t data,
                l\<lparr>accessor_data_map := (accessor_data_map l)(i \<mapsto> spec_decode a bv t data)\<rparr>)"
  by (simp add: get_data_def miss lk ty bytes decode_accessor_supported[OF ct ty fit])

lemma upt_0_3: "[0..<3] = [0, 1, 2]"
  by (simp add: upt_rec)

lemma sample_loader_miss: "accessor_data_map (sample_loader b doc) i = None"
  by (simp add: sample_loader_def new_loader_def)

lemma bytes3_lookup:
  "lookup_buffer (sample_loader True bytes3_doc) vec3_ubyte_normalized =
     Inr (\<lparr>bv_buffer = 0, bv_byteOffset = None, bv_byteLength = 3, bv_byteStride = None\<rparr>,
          \<lparr>buf_byteLength = 3, buf_uri = None, buf_data = Some (Some [255, 0, 128])\<rparr>)"
  by (simp add: lookup_buffer_def sample_loader_def bytes3_doc_def sample_doc_def
        vec3_ubyte_normalized_def py_index_def py_position_def)

lemma bytes3_bytes:
  "buffer_bytes env (sample_loader True doc)
     \<lparr>bv_buffer = 0, bv_byteOffset = None, bv_byteLength = 3, bv_byteStride = None\<rparr>
     \<lparr>buf_byteLength = 3, buf_uri = None, buf_data = Some (Some [255, 0, 128])\<rparr>
   = Inr (Some [255, 0, 128])"
  by (simp add: buffer_bytes_def sample_loader_def)

lemma vec3_type: "to_AccessorType (acc_type vec3_ubyte_normalized) = Inr VEC3"
  by (simp add: vec3_ubyte_normalized_def to_AccessorType_def)

lemma vec3_ct: "acc_componentType vec3_ubyte_normalized \<in> {5121, 5123, 5125, 5126}"
  by (simp add: vec3_ubyte_normalized_def)

lemma vec3_fit:
  "bytes_suffice vec3_ubyte_normalized
     \<lparr>bv_buffer = 0, bv_byteOffset = None, bv_byteLength = 3, bv_byteStride = None\<rparr>
     VEC3 [255, 0, 128]"
  by (simp add: bytes_suffice_def window_inside_def spec_position_def spec_stride_def
        spec_component_size_def vec3_ubyte_normalized_def upt_0_3)

lemma vec3_spec:
  "spec_decode vec3_ubyte_normalized
     \<lparr>bv_buffer = 0, bv_byteOffset = None, bv_byteLength = 3, bv_byteStride = None\<rparr>
     VEC3 [255, 0, 128]
   = [Tuple [IntDiv 255 255, IntDiv 0 255, IntDiv 128 255]]"
  by (simp add: spec_decode_def spec_entry_def spec_component_def spec_value_def
        spec_divisor_def spec_position_def spec_stride_def spec_component_size_def
        vec3_ubyte_normalized_def upt_0_3)

lemma sample_decode:
  "get_data env (sample_loader True bytes3_doc) vec3_ubyte_normalized 0
     = Inr ([Tuple [IntDiv 255 255, IntDiv 0 255, IntDiv 128 255]],
            (sample_loader True bytes3_doc)
              \<lparr>accessor_data_map :=
                 (accessor_data_map (sample_loader True bytes3_doc))
                   (0 \<mapsto> [Tuple [IntDiv 255 255, IntDiv 0 255, IntDiv 128 255]])\<rparr>)"
  using get_data_supported [OF sample_loader_miss bytes3_lookup vec3_type bytes3_bytes
          vec3_ct vec3_fit, of env 0]
  by (simp only: vec3_spec)

section \<open>Decoding an accessor\<close>

text \<open>
  Claim C1. On a first request for an index, for an accessor whose view and buffer are
  found, whose type is a member of the enumeration, whose component type is unsigned byte,
  unsigned short, unsigned int or float, and whose bytes suffice, \<^verbatim>\<open>get_data\<close> returns
  the sequence of the specification: \<open>count\<close> entries, entry \<open>i\<close>, component \<open>j\<close> being the
  little-endian value at \<open>byteOffset + i * stride + j * componentByteSize\<close> over the
  divisor 255, 65535 or 1, a bare number for a scalar and a tuple in component order
  otherwise; and it stores that sequence under the index.
\<close>

theorem get_data_decodes:
  assumes "accessor_data_map l i = None"
      and "lookup_buffer l a = Inr (bv, buf)"
      and "to_AccessorType (acc_type a) = Inr t"
      and "buffer_bytes env l bv buf = Inr (Some data)"
      and "acc_componentType a \<in> {5121, 5123, 5125, 5126}"
      and "bytes_suffice a bv t data"
  shows "get_data env l a i =
           Inr (spec_decode a bv t data,
                l\<lparr>accessor_data_map := (accessor_data_map l)(i \<mapsto> spec_decode a bv t data)\<rparr>)
         \<and> length (spec_decode a bv t data) = nat (acc_count a)"
  using get_data_supported [OF assms] by (simp add: length_spec_decode)

text \<open>
  The sample of the specification: a normalised VEC3 accessor of unsigned bytes over the
  bytes 255, 0, 128 decodes to one tuple, 255/255, 0/255 and 128/255.
\<close>

theorem get_data_decodes_witness:
  "get_data (sample_env no_files no_parse) (sample_loader True bytes3_doc)
       vec3_ubyte_normalized 0
     = Inr ([Tuple [IntDiv 255 255, IntDiv 0 255, IntDiv 128 255]],
            (sample_loader True bytes3_doc)
              \<lparr>accessor_data_map :=
                 (accessor_data_map (sample_loader True bytes3_doc))
                   (0 \<mapsto> [Tuple [IntDiv 255 255, IntDiv 0 255, IntDiv 128 255]])\<rparr>)
   \<and> length [Tuple [IntDiv 255 255, IntDiv 0 255, IntDiv 128 255]]
       = nat (acc_count vec3_ubyte_normalized)"
  using get_data_decodes [OF sample_loader_miss bytes3_lookup vec3_type bytes3_bytes
          vec3_ct vec3_fit, of "sample_env no_files no_parse" 0]
  by (simp only: vec3_spec)

section \<open>The cache\<close>

text \<open>
  Claim C2. Once \<^verbatim>\<open>get_data\<close> has returned a sequence for an index, every later call
  with that index returns the same sequence and leaves the loader as it is, whatever
  calls came in between, whatever accessor is passed, and whatever the document, the
  buffers and the surroundings of the loader are by then: only the cache is consulted.
\<close>

theorem get_data_memoized:
  assumes "get_data env l a i = Inr (d, l')"
      and "accessor_data_map l'' = accessor_data_map (run_calls env' l' calls)"
  shows "get_data env'' l'' a' i = Inr (d, l'')"
proof -
  from get_data_state[OF assms(1)] have "accessor_data_map l' i = Some d" by simp
  then have "accessor_data_map (run_calls env' l' calls) i = Some d"
    by (rule run_calls_keeps)
  with assms(2) have "accessor_data_map l'' i = Some d" by simp
  then show ?thesis by (rule get_data_cached)
qed

theorem get_data_memoized_witness:
  "get_data (sample_env no_files no_parse) (sample_loader True bytes3_doc)
       vec3_ubyte_normalized 0
     = Inr ([Tuple [IntDiv 255 255, IntDiv 0 255, IntDiv 128 255]],
            (sample_loader True bytes3_doc)
              \<lparr>accessor_data_map :=
                 (accessor_data_map (sample_loader True bytes3_doc))
                   (0 \<mapsto> [Tuple [IntDiv 255 255, IntDiv 0 255, IntDiv 128 255]])\<rparr>)
   \<and> get_data (sample_env no_files no_parse)
        (run_calls (sample_env no_files no_parse)
           ((sample_loader True bytes3_doc)
              \<lparr>accessor_data_map :=
                 (accessor_data_map (sample_loader True bytes3_doc))
                   (0 \<mapsto> [Tuple [IntDiv 255 255, IntDiv 0 255, IntDiv 128 255]])\<rparr>)
           [(vec3_byte, 1)])
        vec3_byte 0
     = Inr ([Tuple [IntDiv 255 255, IntDiv 0 255, IntDiv 128 255]],
            run_calls (sample_env no_files no_parse)
              ((sample_loader True bytes3_doc)
                 \<lparr>accessor_data_map :=
                    (accessor_data_map (sample_loader True bytes3_doc))
                      (0 \<mapsto> [Tuple [IntDiv 255 255, IntDiv 0 255, IntDiv 128 255]])\<rparr>)
              [(vec3_byte, 1)])"
  using sample_decode [of "sample_env no_files no_parse"]
    get_data_memoized [OF sample_decode [of "sample_env no_files no_parse"] refl,
      where env' = "sample_env no_files no_parse" and calls = "[(vec3_byte, 1)]"
        and env'' = "sample_env no_files no_parse" and a' = vec3_byte]
  by simp

text \<open>
  Claim C10. A call of \<^verbatim>\<open>get_data\<close> that returns changes the loader in one place only:
  the cache holds the returned sequence under the index. Every other entry of the cache
  and every other attribute (the document, nodes, scenes, skins, meshes, materials,
  images, animations, asset, root directory, the binary flag) is as before.
\<close>

theorem get_data_frame:
  assumes "get_data env l a i = Inr (r, l')"
  shows "l' = l\<lparr>accessor_data_map := (accessor_data_map l)(i \<mapsto> r)\<rparr>
    \<and> accessor_data_map l' i = Some r
    \<and> (\<forall>k. k \<noteq> i \<longrightarrow> accessor_data_map l' k = accessor_data_map l k)
    \<and> json_data l' = json_data l \<and> nodes l' = nodes l \<and> scenes l' = scenes l
    \<and> main_scene l' = main_scene l \<and> skins l' = skins l \<and> meshes l' = meshes l
    \<and> materials l' = materials l \<and> images l' = images l \<and> animations l' = animations l
    \<and> asset l' = asset l \<and> root_dir l' = root_dir l \<and> binary l' = binary l"
proof -
  have eq: "l' = l\<lparr>accessor_data_map := (accessor_data_map l)(i \<mapsto> r)\<rparr>"
    using assms by (rule get_data_state)
  show ?thesis by (subst (1 2 3 4 5 6 7 8 9 10 11 12 13 14 15) eq) simp
qed

theorem get_data_frame_witness:
  "get_data (sample_env no_files no_parse) (sample_loader True bytes3_doc)
       vec3_ubyte_normalized 0
     = Inr ([Tuple [IntDiv 255 255, IntDiv 0 255, IntDiv 128 255]],
            (sample_loader True bytes3_doc)
              \<lparr>accessor_data_map :=
                 (accessor_data_map (sample_loader True bytes3_doc))
                   (0 \<mapsto> [Tuple [IntDiv 255 255, IntDiv 0 255, IntDiv 128 255]])\<rparr>)
   \<and> json_data ((sample_loader True bytes3_doc)
              \<lparr>accessor_data_map :=
                 (accessor_data_map (sample_loader True bytes3_doc))
                   (0 \<mapsto> [Tuple [IntDiv 255 255, IntDiv 0 255, IntDiv 128 255]])\<rparr>)
       = json_data (sample_loader True bytes3_doc)
   \<and> accessor_data_map ((sample_loader True bytes3_doc)
              \<lparr>accessor_data_map :=
                 (accessor_data_map (sample_loader True bytes3_doc))
                   (0 \<mapsto> [Tuple [IntDiv 255 255, IntDiv 0 255, IntDiv 128 255]])\<rparr>) 7
       = accessor_data_map (sample_loader True bytes3_doc) 7"
  using sample_decode [of "sample_env no_files no_parse"]
    get_data_frame [OF sample_decode [of "sample_env no_files no_parse"]]
  by simp

section \<open>Reads past the end of the bytes\<close>

lemma emap_Inl_elem: "emap f xs = Inl e \<Longrightarrow> \<exists>x\<in>set xs. f x = Inl e"
proof (induction xs)
  case Nil then show ?case by simp
next
  case (Cons z zs)
  show ?case
  proof (cases "f z")
    case (Inl e')
    with Cons.prems show ?thesis by simp
  next
    case (Inr v)
    with Cons.prems have "emap f zs = Inl e" by (simp split: sum.splits)
    from Cons.IH[OF this] show ?thesis by simp
  qed
qed

lemma emap_Inr_length: "emap f xs = Inr ys \<Longrightarrow> length ys = length xs"
proof (induction xs arbitrary: ys)
  case Nil then show ?case by simp
next
  case (Cons z zs)
  then show ?case by (auto split: sum.splits)
qed

lemma read_component_error:
  "read_component (Some bs) f sz d x = Inl e \<Longrightarrow> e = StructError"
  by (cases f) (simp_all add: read_component_def struct_unpack_def split: if_splits)

lemma read_entry_error:
  assumes "0 < n" and "read_entry (Some bs) f sz d n cs off = Inl e"
  shows "e = StructError"
proof (cases "emap (\<lambda>j. read_component (Some bs) f sz d (off + int j * int cs)) [0..<n]")
  case (Inl e')
  with assms(2) have "e' = e" by (simp add: read_entry_def)
  from emap_Inl_elem[OF Inl] obtain j where
    "read_component (Some bs) f sz d (off + int j * int cs) = Inl e'" by blast
  then have "e' = StructError" by (rule read_component_error)
  with \<open>e' = e\<close> show ?thesis by simp
next
  case (Inr ys)
  from emap_Inr_length[OF Inr] assms(1) have "ys \<noteq> []" by auto
  then have "\<exists>y. make_entry ys = Inr y"
    by (cases ys) (simp_all add: make_entry_def)
  with assms(2) Inr show ?thesis by (auto simp add: read_entry_def)
qed

lemma read_entry_short:
  assumes that: "fmt_size f = spec_component_size a"
      and j: "j < n"
      and ge: "0 \<le> off + int j * int (spec_component_size a)"
      and short: "int (length bs) < off + int j * int (spec_component_size a)
                    + int (spec_component_size a)"
  shows "read_entry (Some bs) f (spec_component_size a) d n (spec_component_size a) off
           = Inl StructError"
proof -
  let ?s = "spec_component_size a"
  let ?x = "off + int j * int ?s"
  have pos: "0 < ?s" by (simp add: spec_component_size_def)
  have "length bs < nat ?x + ?s" using ge short by linarith
  from py_slice_short[OF ge pos this]
  have "length (py_slice bs ?x (?x + int ?s)) \<noteq> fmt_size f" using that by simp
  then have c: "read_component (Some bs) f ?s d ?x = Inl StructError"
    by (simp add: read_component_def struct_unpack_def)
  have "emap (\<lambda>j. read_component (Some bs) f ?s d (off + int j * int ?s)) [0..<n]
          = Inl StructError"
  proof (rule emap_some_Inl)
    show "j \<in> set [0..<n]" using j by simp
    show "read_component (Some bs) f ?s d (off + int j * int ?s) = Inl StructError" by (rule c)
    show "e' = StructError"
      if r: "read_component (Some bs) f ?s d (off + int y * int ?s) = Inl e'" for y e'
      using r by (rule read_component_error)
  qed
  then show ?thesis by (simp add: read_entry_def)
qed

lemma decode_accessor_short:
  assumes ct: "acc_componentType a \<in> {5121, 5123, 5125, 5126}"
      and ty: "to_AccessorType (acc_type a) = Inr t"
      and i: "i < nat (acc_count a)"
      and j: "j < spec_component_count t"
      and ge: "0 \<le> spec_position a bv t i j"
      and short: "int (length data) < spec_position a bv t i j + int (spec_component_size a)"
  shows "decode_accessor a bv (Some data) = Inl StructError"
proof (rule supported_format[OF ct])
  fix c f
  assume c: "to_AccessorComponentType (acc_componentType a) = Inr c"
    and sz: "accessor_component_type_bytesize c = spec_component_size a"
    and fm: "component_format c a = Inr (f, spec_component_size a, spec_divisor a)"
    and fs: "fmt_size f = spec_component_size a"
  let ?n = "spec_component_count t"
  let ?s = "spec_component_size a"
  let ?off = "case acc_byteOffset a of Some off \<Rightarrow> off | None \<Rightarrow> 0"
  let ?stride = "spec_stride a bv t"
  let ?rd = "read_entry (Some data) f ?s (spec_divisor a) ?n ?s"
  have pos: "?off + int i * ?stride + int j * int ?s = spec_position a bv t i j"
    by (simp add: spec_position_def)
  have e1: "?rd (?off + int i * ?stride) = Inl StructError"
    by (rule read_entry_short[OF fs j]) (simp_all only: pos ge short)
  have all: "e' = StructError" if "?rd x = Inl e'" for x e'
    using spec_component_count_pos that by (rule read_entry_error)
  have loop: "decode_loop ?rd ?stride (nat (acc_count a)) ?off = Inl StructError"
    using all i e1 by (rule decode_loop_some_Inl)
  have st: "(case bv_byteStride bv of
               Some s \<Rightarrow> s
             | None \<Rightarrow> int (?n * accessor_component_type_bytesize c)) = ?stride"
    by (cases "bv_byteStride bv") (simp_all add: spec_stride_def sz)
  show "decode_accessor a bv (Some data) = Inl StructError"
    by (simp add: decode_accessor_def c accessor_type_count_of_type[OF ty] sz fm st loop Let_def)
qed

text \<open>
  The one failure of this kind that the source has: when a component's window, at a
  position that is not negative, reaches past the end of the resolved bytes, the slice is
  shorter than the format and \<^verbatim>\<open>struct.unpack\<close> raises \<^verbatim>\<open>struct.error\<close>.
\<close>

lemma get_data_window_past_bytes:
  assumes "accessor_data_map l i = None"
      and "lookup_buffer l a = Inr (bv, buf)"
      and "to_AccessorType (acc_type a) = Inr t"
      and "buffer_bytes env l bv buf = Inr (Some data)"
      and "acc_componentType a \<in> {5121, 5123, 5125, 5126}"
      and "k < nat (acc_count a)"
      and "j < spec_component_count t"
      and "0 \<le> spec_position a bv t k j"
      and "int (length data) < spec_position a bv t k j + int (spec_component_size a)"
  shows "get_data env l a i = Inl StructError"
  using assms(1-4) decode_accessor_short [OF assms(5) assms(3) assms(6-9)]
  by (simp add: get_data_def)

lemma one_byte_lookup:
  "lookup_buffer (sample_loader True one_byte_doc) scalar_uint
     = Inr (one_byte_view, four_bytes_buffer)"
  by (simp add: lookup_buffer_def sample_loader_def one_byte_doc_def sample_doc_def
        scalar_uint_def py_index_def py_position_def one_byte_view_def)

lemma four_bytes_bytes:
  "buffer_bytes env (sample_loader True doc) one_byte_view four_bytes_buffer
     = Inr (Some [1, 2, 3, 4])"
  by (simp add: buffer_bytes_def sample_loader_def one_byte_view_def four_bytes_buffer_def)

lemma scalar_uint_type: "to_AccessorType (acc_type scalar_uint) = Inr SCALAR"
  by (simp add: scalar_uint_def to_AccessorType_def)

lemma scalar_uint_ct: "acc_componentType scalar_uint \<in> {5121, 5123, 5125, 5126}"
  by (simp add: scalar_uint_def)

lemma scalar_uint_fit: "bytes_suffice scalar_uint one_byte_view SCALAR [1, 2, 3, 4]"
  by (simp add: bytes_suffice_def window_inside_def spec_position_def spec_stride_def
        spec_component_size_def scalar_uint_def one_byte_view_def)

lemma scalar_uint_spec:
  "spec_decode scalar_uint one_byte_view SCALAR [1, 2, 3, 4] = [Scalar (IntDiv 67305985 1)]"
  by (simp add: spec_decode_def spec_entry_def spec_component_def spec_value_def
        spec_divisor_def spec_position_def spec_stride_def spec_component_size_def
        scalar_uint_def one_byte_view_def)

text \<open>
  Claim C7 does not hold of the source. \<^verbatim>\<open>get_data\<close> never compares what the accessor
  declares with the bytes of the view: in the binary form the bytes read from are the
  whole bound buffer from the view's \<^verbatim>\<open>byteOffset\<close> on, and the view's \<^verbatim>\<open>byteLength\<close> is
  not looked at. A scalar accessor of one unsigned 32-bit integer behind a view that
  declares one byte over the bytes 1, 2, 3, 4 has \<^verbatim>\<open>count * stride = 4 > 1\<close>; \<^verbatim>\<open>get_data\<close>
  does not fail, it returns the number made of all four bytes, three of them outside the
  view, and caches it.
\<close>

theorem view_length_not_checked:
  "bv_byteLength one_byte_view = 1
   \<and> acc_count scalar_uint * spec_stride scalar_uint one_byte_view SCALAR = 4
   \<and> get_data (sample_env no_files no_parse) (sample_loader True one_byte_doc) scalar_uint 0
       = Inr ([Scalar (IntDiv 67305985 1)],
              (sample_loader True one_byte_doc)
                \<lparr>accessor_data_map :=
                   (accessor_data_map (sample_loader True one_byte_doc))
                     (0 \<mapsto> [Scalar (IntDiv 67305985 1)])\<rparr>)"
proof (intro conjI)
  show "bv_byteLength one_byte_view = 1"
    by (simp add: one_byte_view_def)
  show "acc_count scalar_uint * spec_stride scalar_uint one_byte_view SCALAR = 4"
    by (simp add: scalar_uint_def spec_stride_def spec_component_size_def one_byte_view_def)
  show "get_data (sample_env no_files no_parse) (sample_loader True one_byte_doc) scalar_uint 0
       = Inr ([Scalar (IntDiv 67305985 1)],
              (sample_loader True one_byte_doc)
                \<lparr>accessor_data_map :=
                   (accessor_data_map (sample_loader True one_byte_doc))
                     (0 \<mapsto> [Scalar (IntDiv 67305985 1)])\<rparr>)"
    using get_data_supported [OF sample_loader_miss one_byte_lookup scalar_uint_type
            four_bytes_bytes scalar_uint_ct scalar_uint_fit,
            of "sample_env no_files no_parse" 0]
    by (simp only: scalar_uint_spec)
qed

section \<open>Component types that are not decoded\<close>

lemma decode_accessor_unsupported:
  assumes ct: "acc_componentType a \<notin> {5121, 5123, 5125, 5126}"
      and ty: "to_AccessorType (acc_type a) = Inr t"
  shows "decode_accessor a bv d =
           Inl (if acc_componentType a = 5120 \<or> acc_componentType a = 5122
                then PyException ''unsupported accessor component type!''
                else ValueError)"
  using ct
  by (simp add: decode_accessor_def to_AccessorComponentType_def
        accessor_type_count_of_type[OF ty] Let_def)

lemma get_data_unsupported_fails:
  assumes miss: "accessor_data_map l i = None"
      and ct: "acc_componentType a \<notin> {5121, 5123, 5125, 5126}"
  shows "\<exists>e. get_data env l a i = Inl e"
proof (cases "lookup_buffer l a")
  case (Inl e)
  then show ?thesis by (simp add: get_data_def miss)
next
  case (Inr p)
  obtain bv buf where p: "p = (bv, buf)" by (cases p)
  show ?thesis
  proof (cases "to_AccessorType (acc_type a)")
    case (Inl e)
    then show ?thesis by (simp add: get_data_def miss Inr p)
  next
    case ty: (Inr t)
    show ?thesis
    proof (cases "buffer_bytes env l bv buf")
      case (Inl e)
      then show ?thesis by (simp add: get_data_def miss Inr p ty)
    next
      case bytes: (Inr d)
      show ?thesis
        by (simp add: get_data_def miss Inr p ty bytes decode_accessor_unsupported[OF ct ty])
    qed
  qed
qed

lemma get_data_unsupported_error:
  assumes miss: "accessor_data_map l i = None"
      and ct: "acc_componentType a \<notin> {5121, 5123, 5125, 5126}"
      and lk: "lookup_buffer l a = Inr (bv, buf)"
      and ty: "to_AccessorType (acc_type a) = Inr t"
      and bytes: "buffer_bytes env l bv buf = Inr d"
  shows "get_data env l a i =
           Inl (if acc_componentType a = 5120 \<or> acc_componentType a = 5122
                then PyException ''unsupported accessor component type!''
                else ValueError)"
  by (simp add: get_data_def miss lk ty bytes decode_accessor_unsupported[OF ct ty])

lemma vec3_byte_lookup:
  "lookup_buffer (sample_loader True bytes3_doc) vec3_byte =
     Inr (\<lparr>bv_buffer = 0, bv_byteOffset = None, bv_byteLength = 3, bv_byteStride = None\<rparr>,
          \<lparr>buf_byteLength = 3, buf_uri = None, buf_data = Some (Some [255, 0, 128])\<rparr>)"
  by (simp add: lookup_buffer_def sample_loader_def bytes3_doc_def sample_doc_def
        vec3_byte_def vec3_ubyte_normalized_def py_index_def py_position_def)

lemma vec3_byte_type: "to_AccessorType (acc_type vec3_byte) = Inr VEC3"
  by (simp add: vec3_byte_def vec3_ubyte_normalized_def to_AccessorType_def)

lemma vec3_byte_ct: "acc_componentType vec3_byte \<notin> {5121, 5123, 5125, 5126}"
  by (simp add: vec3_byte_def vec3_ubyte_normalized_def)

text \<open>
  Claim C5. On the decode path (the index is not cached), an accessor whose component
  type is not one of 5121, 5123, 5125, 5126 never yields data: \<^verbatim>\<open>get_data\<close> raises.
  When the view, the buffer, the accessor type and the buffer bytes are resolved, the
  failure is the one caused by the component type: for BYTE (5120) and SHORT (5122) the
  exception \<^verbatim>\<open>unsupported accessor component type!\<close>, for a value outside the
  enumeration the \<^verbatim>\<open>ValueError\<close> of the enumeration's constructor.
\<close>

theorem get_data_unsupported_component:
  assumes "accessor_data_map l i = None"
      and "acc_componentType a \<notin> {5121, 5123, 5125, 5126}"
  shows "(\<exists>e. get_data env l a i = Inl e)
       \<and> (\<forall>bv buf t d.
             lookup_buffer l a = Inr (bv, buf)
             \<and> to_AccessorType (acc_type a) = Inr t
             \<and> buffer_bytes env l bv buf = Inr d
            \<longrightarrow> get_data env l a i
                  = Inl (if acc_componentType a = 5120 \<or> acc_componentType a = 5122
                         then PyException ''unsupported accessor component type!''
                         else ValueError))"
proof (intro conjI allI impI)
  show "\<exists>e. get_data env l a i = Inl e"
    by (rule get_data_unsupported_fails [OF assms])
next
  fix bv buf t d
  assume h: "lookup_buffer l a = Inr (bv, buf)
             \<and> to_AccessorType (acc_type a) = Inr t
             \<and> buffer_bytes env l bv buf = Inr d"
  show "get_data env l a i
          = Inl (if acc_componentType a = 5120 \<or> acc_componentType a = 5122
                 then PyException ''unsupported accessor component type!''
                 else ValueError)"
    by (rule get_data_unsupported_error
          [OF assms(1) assms(2) h [THEN conjunct1] h [THEN conjunct2, THEN conjunct1]
              h [THEN conjunct2, THEN conjunct2]])
qed

theorem get_data_unsupported_component_witness:
  "accessor_data_map (sample_loader True bytes3_doc) 0 = None
   \<and> acc_componentType vec3_byte \<notin> {5121, 5123, 5125, 5126}
   \<and> get_data (sample_env no_files no_parse) (sample_loader True bytes3_doc) vec3_byte 0
       = Inl (PyException ''unsupported accessor component type!'')"
proof (intro conjI)
  show "accessor_data_map (sample_loader True bytes3_doc) 0 = None"
    by (rule sample_loader_miss)
  show "acc_componentType vec3_byte \<notin> {5121, 5123, 5125, 5126}"
    by (rule vec3_byte_ct)
  from get_data_unsupported_component [OF sample_loader_miss vec3_byte_ct,
         where env = "sample_env no_files no_parse" and b1 = True and doc1 = bytes3_doc
           and i = 0]
       vec3_byte_lookup vec3_byte_type
       bytes3_bytes [of "sample_env no_files no_parse" bytes3_doc]
  have "get_data (sample_env no_files no_parse) (sample_loader True bytes3_doc) vec3_byte 0
          = Inl (if acc_componentType vec3_byte = 5120 \<or> acc_componentType vec3_byte = 5122
                 then PyException ''unsupported accessor component type!''
                 else ValueError)"
    by blast
  then show "get_data (sample_env no_files no_parse) (sample_loader True bytes3_doc) vec3_byte 0
       = Inl (PyException ''unsupported accessor component type!'')"
    by (simp add: vec3_byte_def vec3_ubyte_normalized_def)
qed

section \<open>Text-form buffers without a uri\<close>

lemma buffer_bytes_no_uri:
  "\<not> binary l \<Longrightarrow> buf_uri buf = None \<Longrightarrow> buffer_bytes env l bv buf = Inl KeyError"
  by (simp add: buffer_bytes_def)

lemma no_uri_lookup:
  "lookup_buffer (sample_loader b no_uri_doc) vec3_ubyte_normalized
     = Inr (no_uri_view, no_uri_buffer)"
  by (simp add: lookup_buffer_def sample_loader_def no_uri_doc_def sample_doc_def
        vec3_ubyte_normalized_def py_index_def py_position_def no_uri_view_def)

lemma sample_loader_binary: "binary (sample_loader b doc) = b"
  by (simp add: sample_loader_def)

text \<open>
  Claim C9. In a loader built from the text form (\<^verbatim>\<open>binary\<close> is false), a first request
  for an accessor whose buffer has no \<^verbatim>\<open>uri\<close> fails with \<^verbatim>\<open>KeyError\<close> at
  \<^verbatim>\<open>buffer['uri']\<close>, before any byte is resolved or decoded.
\<close>

theorem get_data_text_buffer_without_uri:
  assumes "\<not> binary l"
      and "accessor_data_map l i = None"
      and "lookup_buffer l a = Inr (bv, buf)"
      and "to_AccessorType (acc_type a) = Inr t"
      and "buf_uri buf = None"
  shows "buffer_bytes env l bv buf = Inl KeyError \<and> get_data env l a i = Inl KeyError"
  using assms(2-4) buffer_bytes_no_uri [OF assms(1) assms(5), of env bv]
  by (simp add: get_data_def)

theorem get_data_text_buffer_without_uri_witness:
  "\<not> binary (sample_loader False no_uri_doc)
   \<and> buf_uri no_uri_buffer = None
   \<and> get_data (sample_env no_files no_parse) (sample_loader False no_uri_doc)
        vec3_ubyte_normalized 0 = Inl KeyError"
proof -
  have nb: "\<not> binary (sample_loader False no_uri_doc)"
    by (simp add: sample_loader_binary)
  have u: "buf_uri no_uri_buffer = None"
    by (simp add: no_uri_buffer_def)
  from get_data_text_buffer_without_uri [where env = "sample_env no_files no_parse",
         OF nb sample_loader_miss no_uri_lookup vec3_type u] nb u
  show ?thesis by simp
qed

section \<open>The binary container\<close>

lemma length_le32: "length (le32 n) = 4"
  by (simp add: le32_def)

lemma le_nat_le32:
  assumes "n < 2 ^ 32"
  shows "le_nat (le32 n) = n"
proof -
  define q1 where "q1 = n div 256"
  define q2 where "q2 = q1 div 256"
  define q3 where "q3 = q2 div 256"
  have e2: "n div 65536 = q2" and e3: "n div 16777216 = q3"
    by (simp_all add: q1_def q2_def q3_def div_mult2_eq)
  have s3: "q3 mod 256 = q3"
    using assms unfolding e3 [symmetric] by simp
  have d1: "n = n mod 256 + 256 * q1" and d2: "q1 = q1 mod 256 + 256 * q2"
    and d3: "q2 = q2 mod 256 + 256 * q3"
    by (simp_all add: q1_def q2_def q3_def)
  have "le_nat (le32 n) = n mod 256 + 256 * (q1 mod 256 + 256 * (q2 mod 256 + 256 * q3))"
    by (simp only: le32_def le_nat.simps unat_of_nat e2 e3 q1_def [symmetric] s3)
       (simp add: s3)
  also have "\<dots> = n"
    using d1 d2 d3 by simp
  finally show ?thesis .
qed

lemma take_le32: "take 4 (le32 n @ xs) = le32 n"
  by (simp add: le32_def)

lemma drop_le32: "drop 4 (le32 n @ xs) = xs"
  by (simp add: le32_def)

lemma read_chunks_end:
  "read_chunks env file_size [] n l = (if n \<noteq> file_size then Inl TypeError else Inr l)"
  by (subst read_chunks.simps) simp

lemma read_chunks_step:
  assumes "length payload < 2 ^ 32" and "ty < 2 ^ 32"
  shows "read_chunks env file_size (glb_chunk ty payload @ rest) n l =
     (if ty = JSON_CHUNK then
        (case json_loads_utf8 env payload of
           Inl e \<Rightarrow> Inl e
         | Inr doc \<Rightarrow>
             read_chunks env file_size rest ((n + 8 + length payload) mod 2 ^ 32)
               (l\<lparr>json_data := Some doc\<rparr>))
      else if ty = BINARY_CHUNK then
        (case bind_binary_chunk env payload l of
           Inl e \<Rightarrow> Inl e
         | Inr l' \<Rightarrow> read_chunks env file_size rest ((n + 8 + length payload) mod 2 ^ 32) l')
      else Inl TypeError)"
proof -
  have hdr: "take 8 (glb_chunk ty payload @ rest) = le32 (length payload) @ le32 ty"
    by (simp add: glb_chunk_def length_le32)
  have sz: "le_nat (take 4 (le32 (length payload) @ le32 ty)) = length payload"
    by (simp only: take_le32 le_nat_le32 [OF assms(1)])
  have ty: "le_nat (drop 4 (le32 (length payload) @ le32 ty)) = ty"
    by (simp only: drop_le32 le_nat_le32 [OF assms(2)])
  have pl: "take (length payload) (drop 8 (glb_chunk ty payload @ rest)) = payload"
    by (simp add: glb_chunk_def length_le32)
  have rs: "drop (8 + length payload) (glb_chunk ty payload @ rest) = rest"
    by (simp add: glb_chunk_def length_le32)
  have ne: "le32 (length payload) @ le32 ty \<noteq> []"
    by (simp add: le32_def)
  have ln: "length (le32 (length payload) @ le32 ty) = 8"
    by (simp add: length_le32)
  show ?thesis
    by (subst read_chunks.simps) (simp only: Let_def hdr sz ty pl rs ne ln if_False less_irrefl)
qed

lemma demux_glb_header:
  assumes "n < 2 ^ 32"
  shows "demux_glb env (glb_header n @ rest) l =
     ebind (read_chunks env n rest 12 l) (\<lambda>l'. Inr (l'\<lparr>binary := True\<rparr>))"
proof -
  have hdr: "take 12 (glb_header n @ rest) = glb_header n"
    by (simp add: glb_header_def length_le32)
  have ln: "length (glb_header n) = 12"
    by (simp add: glb_header_def length_le32)
  have mg: "MAGIC < 2 ^ 32" and two: "(2::nat) < 2 ^ 32"
    by (simp_all add: MAGIC_def)
  have m: "le_nat (take 4 (glb_header n)) = MAGIC"
    by (simp only: glb_header_def take_le32 le_nat_le32 [OF mg])
  have v: "le_nat (take 4 (drop 4 (glb_header n))) = 2"
    by (simp only: glb_header_def drop_le32 take_le32 le_nat_le32 [OF two])
  have d8: "drop 8 (glb_header n) = le32 n"
    by (simp add: glb_header_def le32_def)
  have s: "le_nat (drop 8 (glb_header n)) = n"
    by (simp only: d8 le_nat_le32 [OF assms])
  have r: "drop 12 (glb_header n @ rest) = rest"
    by (simp add: glb_header_def length_le32)
  show ?thesis
    by (simp add: demux_glb_def Let_def hdr ln m v s r)
qed

lemma chunk_types: "JSON_CHUNK < 2 ^ 32" "BINARY_CHUNK < 2 ^ 32" "BINARY_CHUNK \<noteq> JSON_CHUNK"
  by (simp_all add: JSON_CHUNK_def BINARY_CHUNK_def)

lemma read_json_chunk:
  assumes "json_loads_utf8 env js = Inr doc" and "k + 8 + length js < 2 ^ 32"
  shows "read_chunks env file_size (glb_chunk JSON_CHUNK js @ rest) k l
           = read_chunks env file_size rest (k + 8 + length js) (l\<lparr>json_data := Some doc\<rparr>)"
proof -
  have lj: "length js < 2 ^ 32"
    using assms(2) by simp
  have m: "(k + 8 + length js) mod 2 ^ 32 = k + 8 + length js"
    using assms(2) by (rule mod_less)
  show ?thesis
    using read_chunks_step [OF lj chunk_types(1), where env = env and file_size = file_size
            and rest = rest and n = k and l = l]
    by (simp only: assms(1) m simp_thms if_True sum.case)
qed

lemma read_binary_chunk:
  assumes "bind_binary_chunk env bin l = r" and "k + 8 + length bin < 2 ^ 32"
  shows "read_chunks env file_size (glb_chunk BINARY_CHUNK bin @ rest) k l
           = (case r of
                Inl e \<Rightarrow> Inl e
              | Inr l' \<Rightarrow> read_chunks env file_size rest (k + 8 + length bin) l')"
proof -
  have lb: "length bin < 2 ^ 32"
    using assms(2) by simp
  have m: "(k + 8 + length bin) mod 2 ^ 32 = k + 8 + length bin"
    using assms(2) by (rule mod_less)
  show ?thesis
    using read_chunks_step [OF lb chunk_types(2), where env = env and file_size = file_size
            and rest = rest and n = k and l = l]
    by (simp only: assms(1) m chunk_types(3) simp_thms if_True if_False)
qed

lemma demux_glb_bad_magic:
  assumes "12 \<le> length file_bytes" and "le_nat (take 4 file_bytes) \<noteq> MAGIC"
  shows "demux_glb env file_bytes l = Inr (l\<lparr>binary := True\<rparr>)"
  using assms by (simp add: demux_glb_def Let_def)

lemma initialize_without_document:
  assumes "json_data l = None"
  shows "initialize env l = Inl AttributeError"
  using assms by (simp add: initialize_def initialize_asset_def)

lemma sample_env_read_file: "read_file (sample_env fs parse) = fs"
  by (simp add: sample_env_def)

lemma sample_env_parse: "json_loads_utf8 (sample_env fs parse) = parse"
  by (simp add: sample_env_def)

lemma new_loader_document: "json_data (new_loader env f p opt gen) = None"
  by (simp add: new_loader_def)

text \<open>
  Claim C3 does not hold of the source. The chunk loop stands under
  \<^verbatim>\<open>if magic == MAGIC\<close>, and that statement has no other branch: a file of at least twelve
  bytes whose first word is not the magic number passes the container step unread, with
  \<^verbatim>\<open>binary\<close> set, and construction stops only in \<^verbatim>\<open>_initialize_asset\<close>, where
  \<^verbatim>\<open>self.json_data\<close> was never assigned: an \<^verbatim>\<open>AttributeError\<close>, not a failure that names
  the format.
\<close>

theorem bad_magic_not_detected:
  assumes "read_file env gltf_file = Some file_bytes"
      and "endswith gltf_file ''.glb''"
      and "12 \<le> length file_bytes"
      and "le_nat (take 4 file_bytes) \<noteq> MAGIC"
  shows "demux_glb env file_bytes (new_loader env gltf_file p opt gen)
           = Inr ((new_loader env gltf_file p opt gen)\<lparr>binary := True\<rparr>)
       \<and> GLTF2Loader_init env gltf_file p opt gen = Inl AttributeError"
proof -
  have d: "demux_glb env file_bytes (new_loader env gltf_file p opt gen)
           = Inr ((new_loader env gltf_file p opt gen)\<lparr>binary := True\<rparr>)"
    by (rule demux_glb_bad_magic [OF assms(3) assms(4)])
  have i: "initialize env ((new_loader env gltf_file p opt gen)\<lparr>binary := True\<rparr>)
           = Inl AttributeError"
    by (rule initialize_without_document) (simp add: new_loader_def)
  show ?thesis
    using assms(1) assms(2) by (simp add: GLTF2Loader_init_def d i)
qed

theorem bad_magic_not_detected_witness:
  "read_file (sample_env sample_files sample_parse) ''bad_magic.glb'' = Some bad_magic_glb
   \<and> le_nat (take 4 bad_magic_glb) \<noteq> MAGIC
   \<and> GLTF2Loader_init (sample_env sample_files sample_parse) ''bad_magic.glb'' 0 False True
       = Inl AttributeError"
proof -
  have r: "read_file (sample_env sample_files sample_parse) ''bad_magic.glb'' = Some bad_magic_glb"
    by (simp add: sample_env_read_file sample_files_def)
  have e: "endswith ''bad_magic.glb'' ''.glb''"
    by (simp add: endswith_def)
  have n: "12 \<le> length bad_magic_glb"
    by (simp add: bad_magic_glb_def)
  have m: "le_nat (take 4 bad_magic_glb) \<noteq> MAGIC"
    by (simp add: bad_magic_glb_def MAGIC_def)
  from bad_magic_not_detected [OF r e n m, of 0 False True] r m
  show ?thesis by simp
qed

text \<open>
  Claim C4 does not hold of the source as to the failure raised. A container of a header
  and one JSON chunk whose header declares another size than the \<^verbatim>\<open>12 + 8 + chunkLength\<close>
  bytes counted (both below \<open>2 ^ 32\<close>, so that the count does not wrap) reaches the check
  at the end of the chunks, and the \<^verbatim>\<open>raise ValueError('Expected ' + file_size + ...)\<close>
  there adds a string and a number: construction fails with \<^verbatim>\<open>TypeError\<close> from that sum,
  and the \<^verbatim>\<open>ValueError\<close> with its message is never built.
\<close>

theorem byte_count_mismatch_raises_type_error:
  assumes "read_file env gltf_file = Some (glb_header n @ glb_chunk JSON_CHUNK js)"
      and "endswith gltf_file ''.glb''"
      and "json_loads_utf8 env js = Inr doc"
      and "n < 2 ^ 32"
      and "12 + (8 + length js) < 2 ^ 32"
      and "n \<noteq> 12 + (8 + length js)"
  shows "GLTF2Loader_init env gltf_file p opt gen = Inl TypeError"
proof -
  have b: "12 + 8 + length js < 2 ^ 32"
    using assms(5) by simp
  have c: "read_chunks env n (glb_chunk JSON_CHUNK js) 12 l = Inl TypeError" for l
    using read_json_chunk [OF assms(3) b, where file_size = n and rest = "[]" and l = l]
      assms(6)
    by (simp add: read_chunks_end)
  have d: "demux_glb env (glb_header n @ glb_chunk JSON_CHUNK js) l = Inl TypeError" for l
    by (simp add: demux_glb_header [OF assms(4)] c)
  show ?thesis
    using assms(1) assms(2) by (simp add: GLTF2Loader_init_def d)
qed

theorem byte_count_mismatch_raises_type_error_witness:
  "read_file (sample_env sample_files sample_parse) ''truncated.glb''
     = Some (glb_header 23 @ glb_chunk JSON_CHUNK [0x7B, 0x7D])
   \<and> (23::nat) \<noteq> 12 + (8 + length [0x7B, 0x7D :: byte])
   \<and> GLTF2Loader_init (sample_env sample_files sample_parse) ''truncated.glb'' 0 False True
       = Inl TypeError"
proof -
  have r: "read_file (sample_env sample_files sample_parse) ''truncated.glb''
             = Some (glb_header 23 @ glb_chunk JSON_CHUNK [0x7B, 0x7D])"
    by (simp add: sample_env_read_file sample_files_def truncated_glb_def)
  have e: "endswith ''truncated.glb'' ''.glb''"
    by (simp add: endswith_def)
  have p: "json_loads_utf8 (sample_env sample_files sample_parse) [0x7B, 0x7D]
             = Inr one_buffer_doc"
    by (simp add: sample_env_parse sample_parse_def)
  from byte_count_mismatch_raises_type_error [OF r e p, of 0 False True] r
  show ?thesis by simp
qed

lemma bind_binary_chunk_unset:
  "json_data l = None \<Longrightarrow> bind_binary_chunk env chunk l = Inl AttributeError"
  by (simp add: bind_binary_chunk_def)

lemma bind_binary_chunk_bound:
  assumes "j_buffers doc = Some (b # bs)" and "buf_uri b = None \<or> buf_uri b = Some []"
  shows "bind_binary_chunk env chunk (l\<lparr>json_data := Some doc\<rparr>)
     = Inr (l\<lparr>json_data :=
               Some (doc\<lparr>j_buffers :=
                          Some (b\<lparr>buf_data := Some (Some (py_slice_to chunk (buf_byteLength b)))\<rparr>
                                # bs)\<rparr>)\<rparr>)"
  using assms by (auto simp add: bind_binary_chunk_def)

lemma bind_binary_chunk_uri:
  assumes "j_buffers doc = Some (b # bs)" and "buf_uri b = Some u" and "u \<noteq> []"
      and "load_uri env u (root_dir l) = Inr d"
  shows "bind_binary_chunk env chunk (l\<lparr>json_data := Some doc\<rparr>)
     = Inr (l\<lparr>json_data := Some (doc\<lparr>j_buffers := Some (b\<lparr>buf_data := Some d\<rparr> # bs)\<rparr>)\<rparr>)"
  using assms by (simp add: bind_binary_chunk_def)

lemma bin_first_demux:
  "demux_glb (sample_env sample_files sample_parse) bin_first_glb
     (new_loader (sample_env sample_files sample_parse) ''bin_first.glb'' 0 False True)
   = Inl AttributeError"
proof -
  have n: "(34::nat) < 2 ^ 32" and k: "12 + 8 + length [1, 2, 3, 4 :: byte] < 2 ^ 32"
    by simp_all
  have c: "read_chunks (sample_env sample_files sample_parse) 34
             (glb_chunk BINARY_CHUNK [1, 2, 3, 4] @ glb_chunk JSON_CHUNK [0x7B, 0x7D]) 12
             (new_loader (sample_env sample_files sample_parse) ''bin_first.glb'' 0 False True)
           = Inl AttributeError"
    using read_binary_chunk [OF bind_binary_chunk_unset [OF new_loader_document] k,
            where file_size = 34 and rest = "glb_chunk JSON_CHUNK [0x7B, 0x7D]"]
    by simp
  show ?thesis
    using demux_glb_header [OF n,
            where env = "sample_env sample_files sample_parse"
              and rest = "glb_chunk BINARY_CHUNK [1, 2, 3, 4] @ glb_chunk JSON_CHUNK [0x7B, 0x7D]"
              and l = "new_loader (sample_env sample_files sample_parse)
                         ''bin_first.glb'' 0 False True"]
    by (simp add: bin_first_glb_def c)
qed


lemma demux_json_only:
  assumes "json_loads_utf8 env js = Inr doc" and "12 + (8 + length js) < 2 ^ 32"
  shows "demux_glb env (glb_header (12 + (8 + length js)) @ glb_chunk JSON_CHUNK js) l
           = Inr (l\<lparr>json_data := Some doc, binary := True\<rparr>)"
proof -
  have b: "12 + 8 + length js < 2 ^ 32"
    using assms(2) by simp
  have e: "12 + 8 + length js = 12 + (8 + length js)"
    by simp
  have one: "read_chunks env (12 + (8 + length js)) (glb_chunk JSON_CHUNK js) 12 l
              = Inr (l\<lparr>json_data := Some doc\<rparr>)"
    using read_json_chunk [OF assms(1) b, where file_size = "12 + (8 + length js)"
            and rest = "[]" and l = l]
    by (simp only: append_Nil2 read_chunks_end e simp_thms if_False)
  show ?thesis
    by (simp only: demux_glb_header [OF assms(2)] one ebind_Inr)
qed

lemma demux_json_binary:
  assumes "json_loads_utf8 env js = Inr doc"
      and "12 + (8 + length js) + (8 + length bin) < 2 ^ 32"
      and "bind_binary_chunk env bin (l\<lparr>json_data := Some doc\<rparr>) = Inr l'"
  shows "demux_glb env
           (glb_header (12 + (8 + length js) + (8 + length bin))
              @ glb_chunk JSON_CHUNK js @ glb_chunk BINARY_CHUNK bin) l
           = Inr (l'\<lparr>binary := True\<rparr>)"
proof -
  have b1: "12 + 8 + length js < 2 ^ 32"
    and b2: "12 + 8 + length js + 8 + length bin < 2 ^ 32"
    using assms(2) by simp_all
  have e: "12 + 8 + length js + 8 + length bin = 12 + (8 + length js) + (8 + length bin)"
    by simp
  have "read_chunks env (12 + (8 + length js) + (8 + length bin))
          (glb_chunk JSON_CHUNK js @ glb_chunk BINARY_CHUNK bin) 12 l
        = read_chunks env (12 + (8 + length js) + (8 + length bin))
            (glb_chunk BINARY_CHUNK bin @ []) (12 + 8 + length js) (l\<lparr>json_data := Some doc\<rparr>)"
    using read_json_chunk [OF assms(1) b1, where rest = "glb_chunk BINARY_CHUNK bin"]
    by (simp only: append_Nil2)
  also have "\<dots> = read_chunks env (12 + (8 + length js) + (8 + length bin)) []
                     (12 + 8 + length js + 8 + length bin) l'"
    using read_binary_chunk [OF assms(3) b2, where rest = "[]"]
    by (simp only: sum.case)
  also have "\<dots> = Inr l'"
    by (simp only: read_chunks_end e simp_thms if_False)
  finally show ?thesis
    by (simp only: demux_glb_header [OF assms(2)] ebind_Inr)
qed

lemma demux_binary_first:
  assumes "json_data l = None" and "n < 2 ^ 32" and "12 + 8 + length bin < 2 ^ 32"
  shows "demux_glb env (glb_header n @ glb_chunk BINARY_CHUNK bin @ rest) l = Inl AttributeError"
  using read_binary_chunk [OF bind_binary_chunk_unset [OF assms(1)] assms(3),
          where file_size = n and rest = rest]
  by (simp add: demux_glb_header [OF assms(2)])


lemma sample_root_dir: "root_dir (new_loader (sample_env fs parse) f p opt gen) = []"
  by (simp add: new_loader_def sample_env_def)

lemma load_data_bin:
  "load_uri (sample_env sample_files sample_parse) ''data.bin'' [] = Inr (Some [9, 8, 7, 6])"
  by (simp add: load_uri_def startswith_def sample_env_read_file sample_files_def)


section \<open>The main scene\<close>

lemma py_index_Nil: "py_index [] k = Inl IndexError"
  by (simp add: py_index_def py_position_def)

lemma empty_scenes_steps:
  assumes "json_data l = Some empty_scenes_doc"
  shows "initialize (sample_env fs parse) l = Inl IndexError"
proof -
  have doc: "j_asset empty_scenes_doc = None" "j_images empty_scenes_doc = None"
    "j_materials empty_scenes_doc = None" "j_meshes empty_scenes_doc = None"
    "j_nodes empty_scenes_doc = None" "j_skins empty_scenes_doc = None"
    "j_scenes empty_scenes_doc = Some []"
    by (simp_all add: empty_scenes_doc_def sample_doc_def)
  show ?thesis
    using assms
    by (simp add: initialize_def initialize_asset_def initialize_images_def
          initialize_materials_def initialize_meshes_def initialize_nodes_def
          initialize_skins_def initialize_scenes_def doc py_index_Nil)
qed

lemma empty_scenes_file:
  "GLTF2Loader_init (sample_env sample_files sample_parse) ''empty_scenes.gltf'' 0 False True
     = Inl IndexError"
proof -
  have p: "sample_parse [0x7B] = Inr empty_scenes_doc"
    by (simp add: sample_parse_def)
  show ?thesis
    by (simp add: GLTF2Loader_init_def sample_env_read_file sample_env_parse sample_files_def
          endswith_def load_text_def p empty_scenes_steps)
qed

text \<open>
  Claim C8 does not hold of the source when the document has the key \<^verbatim>\<open>scenes\<close> with an
  empty list: \<^verbatim>\<open>_initialize_scenes\<close> then evaluates \<^verbatim>\<open>self._scenes[0]\<close> (or
  \<^verbatim>\<open>self._scenes[self.json_data['scene']]\<close>) on the empty list and raises \<^verbatim>\<open>IndexError\<close>,
  so that no loader exists whose \<^verbatim>\<open>get_main_scene\<close> could return \<^verbatim>\<open>None\<close>.
\<close>

theorem empty_scenes_raise:
  assumes "json_data l = Some doc" and "j_scenes doc = Some []"
  shows "initialize_scenes env l = Inl IndexError"
  using assms by (simp add: initialize_scenes_def py_index_Nil)

theorem empty_scenes_raise_witness:
  "json_data (sample_loader False empty_scenes_doc) = Some empty_scenes_doc
   \<and> j_scenes empty_scenes_doc = Some []
   \<and> initialize_scenes (sample_env sample_files sample_parse)
        (sample_loader False empty_scenes_doc) = Inl IndexError
   \<and> GLTF2Loader_init (sample_env sample_files sample_parse) ''empty_scenes.gltf'' 0 False True
       = Inl IndexError"
proof -
  have d: "json_data (sample_loader False empty_scenes_doc) = Some empty_scenes_doc"
    by (simp add: sample_loader_def)
  have s: "j_scenes empty_scenes_doc = Some []"
    by (simp add: empty_scenes_doc_def)
  from empty_scenes_raise [OF d s, of "sample_env sample_files sample_parse"] d s
    empty_scenes_file
  show ?thesis by simp
qed

end
